theory Spec2Isabelle
  imports Complex_Main
begin

section \<open>Values and exceptions\<close>

text \<open>
  The tool is written in Python. Everything it reads from the page is the result of
  \<^verbatim>\<open>json.loads\<close>, so run-time values are modelled as JSON values. A JSON object is an
  association list (the parsed dict, in insertion order); \<open>JNull\<close> is Python's \<^verbatim>\<open>None\<close>.
  Floats are real numbers (NaN and the infinities are not represented).
\<close>

datatype json =
    JNull
  | JBool bool
  | JInt int
  | JFloat real
  | JString string
  | JArray "json list"
  | JObject "(string \<times> json) list"

text \<open>The exceptions the code raises itself or provokes in the library calls it makes.\<close>

datatype error =
    ValueError string
  | AttributeError
  | KeyError
  | IndexError
  | TypeError
  | JSONDecodeError

text \<open>Python truthiness, as used by \<^verbatim>\<open>if x\<close>, \<^verbatim>\<open>not x\<close> and \<^verbatim>\<open>a if x else b\<close>.\<close>

fun truthy :: "json \<Rightarrow> bool" where
  "truthy JNull = False"
| "truthy (JBool b) = b"
| "truthy (JInt i) = (i \<noteq> 0)"
| "truthy (JFloat r) = (r \<noteq> 0)"
| "truthy (JString s) = (s \<noteq> [])"
| "truthy (JArray xs) = (xs \<noteq> [])"
| "truthy (JObject kvs) = (kvs \<noteq> [])"

text \<open>
  \<^verbatim>\<open>x.get(key, default)\<close>: only a dict has the method; on any other value the attribute
  lookup raises AttributeError.
\<close>

fun py_get :: "json \<Rightarrow> string \<Rightarrow> json \<Rightarrow> error + json" where
  "py_get (JObject kvs) k d = Inr (case map_of kvs k of None \<Rightarrow> d | Some v \<Rightarrow> v)"
| "py_get _ k d = Inl AttributeError"

text \<open>\<^verbatim>\<open>x['key']\<close> with a string key.\<close>

fun py_item :: "json \<Rightarrow> string \<Rightarrow> error + json" where
  "py_item (JObject kvs) k = (case map_of kvs k of None \<Rightarrow> Inl KeyError | Some v \<Rightarrow> Inr v)"
| "py_item _ k = Inl TypeError"

text \<open>
  \<^verbatim>\<open>x[0]\<close>. A list or a string raises IndexError when empty; a parsed dict has string
  keys only, so the key 0 is missing; nothing else is subscriptable.
\<close>

fun py_first :: "json \<Rightarrow> error + json" where
  "py_first (JArray []) = Inl IndexError"
| "py_first (JArray (x # xs)) = Inr x"
| "py_first (JString []) = Inl IndexError"
| "py_first (JString (c # cs)) = Inr (JString [c])"
| "py_first (JObject kvs) = Inl KeyError"
| "py_first _ = Inl TypeError"

text \<open>The dict stored in \<^verbatim>\<open>self.profile_data\<close> and each post's dict: \<^verbatim>\<open>d.get(key, default)\<close>.\<close>

definition dict_get :: "(string \<times> json) list \<Rightarrow> string \<Rightarrow> json \<Rightarrow> json" where
  "dict_get d k dflt = (case map_of d k of None \<Rightarrow> dflt | Some v \<Rightarrow> v)"

section \<open>The tool's state and its environment\<close>

text \<open>
  One record holds the fields of the \<^verbatim>\<open>InstagramOSINT\<close> object together with the part
  of the world the code touches:
  \<^item> \<open>clock\<close> is what \<^verbatim>\<open>time.time()\<close> returns; \<^verbatim>\<open>time.sleep(d)\<close> advances it by \<open>d\<close>;
  \<^item> \<open>network n\<close> is the fate of the \<open>n\<close>-th HTTP request of the run: how long it takes
    and its body, or \<open>None\<close> when \<^verbatim>\<open>session.get\<close> or \<^verbatim>\<open>raise_for_status\<close> raises a
    RequestException (timeout, connection error, non-2xx status); \<open>sent\<close> counts the
    requests made so far;
  \<^item> \<open>trace\<close> records, oldest first, each request issued (with the clock at that moment)
    and each sleep of the pacing and of the backoff;
  \<^item> \<open>dirs\<close> and \<open>files\<close> are the paths of the directories created and of the files
    written (path and content, oldest first), as the code passed them. Directory
    creation and file writes always succeed in this model: failures of the operating
    system (permissions, full disk) are outside it;
  \<^item> \<open>cwd\<close> is \<^verbatim>\<open>os.getcwd()\<close>, \<open>self_output_dir\<close> the field \<^verbatim>\<open>self.output_dir\<close> of main.py, and
    \<open>draws\<close> counts the calls of \<^verbatim>\<open>random.uniform\<close>.
  The randomly chosen User-Agent header does not influence anything the code does
  afterwards and is left out.
\<close>

datatype event = Issued real json | Paced real | Backoff real | Delay real

text \<open>
  What a written file holds: a response body, or the JSON text of the posts (a dict in
  InstagramOSINT.py, a list in main.py).
\<close>

datatype content =
    Body string
  | PostsDict "(json \<times> (string \<times> json) list) list"
  | PostsList "(string \<times> json) list list"

record state =
  username :: string
  max_retries :: int
  profile_data :: "(string \<times> json) list"
  description :: "json option"
  profile_meta :: "json option"
  last_request_time :: real
  min_request_interval :: real
  clock :: real
  network :: "nat \<Rightarrow> real \<times> string option"
  sent :: nat
  trace :: "event list"
  dirs :: "string list"
  files :: "(string \<times> content) list"
  cwd :: string
  self_output_dir :: string
  draws :: nat

section \<open>The rate-limited, retrying fetcher\<close>

text \<open>\<^verbatim>\<open>time.sleep(d)\<close>, logged with the reason for the sleep.\<close>

definition sleep :: "(real \<Rightarrow> event) \<Rightarrow> real \<Rightarrow> state \<Rightarrow> state" where
  "sleep why d s = s\<lparr>clock := clock s + d, trace := trace s @ [why d]\<rparr>"

text \<open>
  \<^verbatim>\<open>
  def _rate_limit(self) -> None:
      elapsed = time.time() - self.last_request_time
      if elapsed < self.min_request_interval:
          time.sleep(self.min_request_interval - elapsed)
      self.last_request_time = time.time()
  \<close>
\<close>

definition rate_limit :: "state \<Rightarrow> state" where
  "rate_limit s =
     (let elapsed = clock s - last_request_time s;
          s1 = (if elapsed < min_request_interval s
                then sleep Paced (min_request_interval s - elapsed) s
                else s)
      in s1\<lparr>last_request_time := clock s1\<rparr>)"

text \<open>
  \<^verbatim>\<open>response = self.session.get(url, ...); response.raise_for_status()\<close>: the request is
  issued at the current clock value, takes the time the network says, and either yields
  a body or raises a RequestException (\<open>None\<close>).
\<close>

definition session_get :: "json \<Rightarrow> state \<Rightarrow> string option \<times> state" where
  "session_get url s =
     (let (duration, outcome) = network s (sent s)
      in (outcome,
          s\<lparr>clock := clock s + duration,
            sent := Suc (sent s),
            trace := trace s @ [Issued (clock s) url]\<rparr>))"

text \<open>
  \<^verbatim>\<open>
  def _make_request(self, url, retry_count=0):
      self._rate_limit()
      ...
      try:
          response = self.session.get(url, headers=headers, timeout=10)
          response.raise_for_status()
          return response
      except requests.exceptions.RequestException as e:
          if retry_count < self.max_retries:
              time.sleep(2 ** retry_count)  # Exponential backoff
              return self._make_request(url, retry_count + 1)
          return None
  \<close>
  The two files differ only in the bound: \<^verbatim>\<open>self.max_retries\<close> in InstagramOSINT.py,
  the constant 3 in main.py. The common body takes the bound as an argument.
\<close>

function request_with_retries :: "int \<Rightarrow> json \<Rightarrow> nat \<Rightarrow> state \<Rightarrow> string option \<times> state" where
  "request_with_retries bound url retry_count s =
     (case session_get url (rate_limit s) of
        (Some response, s') \<Rightarrow> (Some response, s')
      | (None, s') \<Rightarrow>
          if int retry_count < bound
          then request_with_retries bound url (Suc retry_count) (sleep Backoff (2 ^ retry_count) s')
          else (None, s'))"
  by pat_completeness auto
termination
  by (relation "measure (\<lambda>(bound, url, retry_count, s). nat (bound - int retry_count))") auto

definition make_request :: "json \<Rightarrow> state \<Rightarrow> string option \<times> state" where
  "make_request url s = request_with_retries (max_retries s) url 0 s"

definition make_request_main :: "json \<Rightarrow> state \<Rightarrow> string option \<times> state" where
  "make_request_main url s = request_with_retries 3 url 0 s"

text \<open>What the trace says: when requests were issued, and which backoff sleeps were taken.\<close>

fun issue_times :: "event list \<Rightarrow> real list" where
  "issue_times [] = []"
| "issue_times (Issued t u # es) = t # issue_times es"
| "issue_times (e # es) = issue_times es"

fun backoffs :: "event list \<Rightarrow> real list" where
  "backoffs [] = []"
| "backoffs (Backoff d # es) = d # backoffs es"
| "backoffs (e # es) = backoffs es"

text \<open>Successive entries of a list of times are at least \<open>m\<close> apart.\<close>

fun spaced :: "real \<Rightarrow> real list \<Rightarrow> bool" where
  "spaced m (a # b # ts) = (m \<le> b - a \<and> spaced m (b # ts))"
| "spaced m ts = True"

text \<open>
  A run of one fetcher instance, seen from outside: it is asked to fetch URLs, and between
  two fetches any amount of time may pass. \<open>Fetch\<close> is a call of \<^verbatim>\<open>_make_request\<close> of
  InstagramOSINT.py, \<open>FetchMain\<close> one of \<^verbatim>\<open>_make_request\<close> of main.py.
\<close>

datatype action = Fetch json | FetchMain json | Idle real

fun run :: "action list \<Rightarrow> state \<Rightarrow> state" where
  "run [] s = s"
| "run (Fetch url # as) s = run as (snd (make_request url s))"
| "run (FetchMain url # as) s = run as (snd (make_request_main url s))"
| "run (Idle d # as) s = run as (s\<lparr>clock := clock s + d\<rparr>)"

text \<open>
  The order of attempts and backoff sleeps in a trace: \<open>None\<close> for a request, \<open>Some d\<close>
  for a backoff sleep of \<open>d\<close> time units. Pacing sleeps are left out.
\<close>

fun schedule :: "event list \<Rightarrow> real option list" where
  "schedule [] = []"
| "schedule (Issued t u # es) = None # schedule es"
| "schedule (Backoff d # es) = Some d # schedule es"
| "schedule (e # es) = schedule es"

text \<open>
  \<open>n\<close> failed attempts, the first made with retry counter \<open>k\<close>, each followed by its
  backoff sleep.
\<close>

definition failing_then :: "nat \<Rightarrow> nat \<Rightarrow> real option list" where
  "failing_then k n = concat (map (\<lambda>i. [None, Some (2 ^ i)]) [k..<k + n])"

text \<open>
  The pacing invariant: the requests issued so far are spaced, and none was issued after
  the recorded \<^verbatim>\<open>last_request_time\<close>.
\<close>

definition paced :: "state \<Rightarrow> bool" where
  "paced s = (spaced (min_request_interval s) (issue_times (trace s)) \<and>
      (issue_times (trace s) \<noteq> [] \<longrightarrow> last (issue_times (trace s)) \<le> last_request_time s))"

text \<open>A network on which the first two requests fail and every later one succeeds.\<close>

definition flaky_state :: state where
  "flaky_state =
     \<lparr>username = ''alice'', max_retries = 3, profile_data = [], description = None,
      profile_meta = None, last_request_time = 0, min_request_interval = 2, clock = 100,
      network = (\<lambda>n. if n < 2 then (1 / 2, None) else (1 / 2, Some ''body'')),
      sent = 0, trace = [], dirs = [], files = [], cwd = ''/home/user'', self_output_dir = [],
      draws = 0\<rparr>"

section \<open>Strings\<close>

text \<open>
  Python's string methods, as far as the code uses them. Characters are 8-bit code
  points; \<open>is_space\<close> is \<^verbatim>\<open>str.isspace\<close> on that range.
\<close>

definition is_space :: "char \<Rightarrow> bool" where
  "is_space c =
     (let n = (of_char c :: nat)
      in (9 \<le> n \<and> n \<le> 13) \<or> (28 \<le> n \<and> n \<le> 32) \<or> n = 133 \<or> n = 160)"

text \<open>\<^verbatim>\<open>s.split()\<close>: the maximal runs of non-whitespace characters, in order.\<close>

fun split_ws :: "string \<Rightarrow> string \<Rightarrow> string list" where
  "split_ws cur [] = (if cur = [] then [] else [cur])"
| "split_ws cur (c # cs) =
     (if is_space c
      then (if cur = [] then split_ws [] cs else cur # split_ws [] cs)
      else split_ws (cur @ [c]) cs)"

definition py_split :: "string \<Rightarrow> string list" where
  "py_split s = split_ws [] s"

text \<open>\<^verbatim>\<open>s.strip()\<close> and \<^verbatim>\<open>s.rstrip(';')\<close>.\<close>

definition py_strip :: "string \<Rightarrow> string" where
  "py_strip s = rev (dropWhile is_space (rev (dropWhile is_space s)))"

definition rstrip_semicolon :: "string \<Rightarrow> string" where
  "rstrip_semicolon s = rev (dropWhile (\<lambda>c. c = CHR '';'') (rev s))"

text \<open>\<^verbatim>\<open>sub in s\<close>.\<close>

fun starts_with :: "string \<Rightarrow> string \<Rightarrow> bool" where
  "starts_with [] s = True"
| "starts_with (p # ps) [] = False"
| "starts_with (p # ps) (c # cs) = (p = c \<and> starts_with ps cs)"

fun contains :: "string \<Rightarrow> string \<Rightarrow> bool" where
  "contains sub [] = (sub = [])"
| "contains sub (c # cs) = (starts_with sub (c # cs) \<or> contains sub cs)"

text \<open>
  \<^verbatim>\<open>s.split(sep, 1)\<close> for a non-empty separator: the text before and after the leftmost
  occurrence of \<open>sep\<close>, or \<open>None\<close> when there is none (the result list then has the
  single element \<open>s\<close>).
\<close>

fun split_once :: "string \<Rightarrow> string \<Rightarrow> string \<Rightarrow> (string \<times> string) option" where
  "split_once sep pre [] = None"
| "split_once sep pre (c # cs) =
     (if starts_with sep (c # cs) then Some (pre, drop (length sep) (c # cs))
      else split_once sep (pre @ [c]) cs)"

section \<open>Library calls\<close>

text \<open>
  What BeautifulSoup hands to the code: for a tag, its \<^verbatim>\<open>content\<close> attribute
  (\<^verbatim>\<open>tag.get('content')\<close>), \<^verbatim>\<open>tag.string\<close> and \<^verbatim>\<open>tag.get_text()\<close>; for a page, the three
  searches the code makes.
\<close>

record tag =
  content_attr :: "string option"
  tag_string :: "string option"
  tag_text :: string

record soup =
  general_data :: "tag list"
  more_data :: "tag list"
  ld_json :: "tag option"

text \<open>
  The library functions the code calls are parameters of the model:
  \<^item> \<open>html_parser\<close>: \<^verbatim>\<open>BeautifulSoup(text, 'html.parser')\<close> followed by
    \<^verbatim>\<open>find_all('meta', property='og:description')\<close>,
    \<^verbatim>\<open>find_all('script', type='text/javascript')\<close> and
    \<^verbatim>\<open>find('script', type='application/ld+json')\<close>;
  \<^item> \<open>json_loads\<close>: \<^verbatim>\<open>json.loads\<close>, which raises on text that is not JSON;
  \<^item> \<open>py_str\<close>: \<^verbatim>\<open>str(x)\<close>, also used by f-strings;
  \<^item> \<open>now_isoformat\<close>: \<^verbatim>\<open>datetime.now().isoformat()\<close> at a clock value;
  \<^item> \<open>fromtimestamp_isoformat\<close>: \<^verbatim>\<open>datetime.fromtimestamp(x).isoformat()\<close>, which raises
    on a value that is not a timestamp;
  \<^item> \<open>random_uniform\<close>: the successive results of \<^verbatim>\<open>random.uniform(1, 3)\<close>.
\<close>

record library =
  html_parser :: "string \<Rightarrow> soup"
  json_loads :: "string \<Rightarrow> error + json"
  py_str :: "json \<Rightarrow> string"
  now_isoformat :: "real \<Rightarrow> string"
  fromtimestamp_isoformat :: "json \<Rightarrow> error + string"
  random_uniform :: "nat \<Rightarrow> real"

text \<open>Sequencing of computations that may raise.\<close>

definition bind :: "error + 'a \<Rightarrow> ('a \<Rightarrow> error + 'b) \<Rightarrow> error + 'b" where
  "bind x f = (case x of Inl e \<Rightarrow> Inl e | Inr v \<Rightarrow> f v)"

section \<open>Parsing and normalising the profile page\<close>

text \<open>
  The first script whose \<^verbatim>\<open>string\<close> is non-empty and contains the marker:
  \<^verbatim>\<open>
  profile_script = None
  for script in more_data:
      if script.string and 'window._sharedData' in script.string:
          profile_script = script.string
          break
  \<close>
\<close>

fun find_profile_script :: "tag list \<Rightarrow> string option" where
  "find_profile_script [] = None"
| "find_profile_script (script # rest) =
     (case tag_string script of
        None \<Rightarrow> find_profile_script rest
      | Some str \<Rightarrow>
          if str \<noteq> [] \<and> contains ''window._sharedData'' str then Some str
          else find_profile_script rest)"

text \<open>\<^verbatim>\<open>json_data = profile_script.strip().split(' = ', 1)[1].rstrip(';')\<close>\<close>

definition extract_json_data :: "string \<Rightarrow> error + string" where
  "extract_json_data profile_script =
     (case split_once '' = '' [] (py_strip profile_script) of
        None \<Rightarrow> Inl IndexError
      | Some (pre, post) \<Rightarrow> Inr (rstrip_semicolon post))"

text \<open>\<^verbatim>\<open>self.profile_meta['entry_data']['ProfilePage'][0]['graphql']['user']\<close>\<close>

definition user_node :: "json \<Rightarrow> error + json" where
  "user_node meta =
     bind (py_item meta ''entry_data'') (\<lambda>a.
     bind (py_item a ''ProfilePage'') (\<lambda>b.
     bind (py_first b) (\<lambda>c.
     bind (py_item c ''graphql'') (\<lambda>d.
     py_item d ''user''))))"

text \<open>
  The fields with two sources. \<open>desc\<close> is \<^verbatim>\<open>self.description\<close>, \<open>ud\<close> the dict
  \<^verbatim>\<open>user_data\<close>, \<open>text\<close> the tokens of the meta tag.
  \<^verbatim>\<open>
  self.description.get('name', '') if self.description else user_data.get('full_name', '')
  \<close>
\<close>

definition profile_name :: "json \<Rightarrow> (string \<times> json) list \<Rightarrow> error + json" where
  "profile_name desc ud =
     (if truthy desc then py_get desc ''name'' (JString [])
      else Inr (dict_get ud ''full_name'' (JString [])))"

text \<open>
  \<^verbatim>\<open>
  self.description.get('mainEntityofPage', {}).get('@id', '') if self.description
      else f"https://www.instagram.com/{self.username}/"
  \<close>
\<close>

definition profile_url :: "string \<Rightarrow> json \<Rightarrow> error + json" where
  "profile_url uname desc =
     (if truthy desc
      then bind (py_get desc ''mainEntityofPage'' (JObject [])) (\<lambda>m. py_get m ''@id'' (JString []))
      else Inr (JString (''https://www.instagram.com/'' @ uname @ ''/'')))"

text \<open>
  \<^verbatim>\<open>
  text[i] if len(text) > i else str(user_data.get(edge, {}).get('count', 'N/A'))
  \<close>
\<close>

definition snapshot_count :: "library \<Rightarrow> (string \<times> json) list \<Rightarrow> string \<Rightarrow> error + json" where
  "snapshot_count lib ud edge =
     bind (py_get (dict_get ud edge (JObject [])) ''count'' (JString ''N/A''))
          (\<lambda>c. Inr (JString (py_str lib c)))"

definition count_field ::
  "library \<Rightarrow> string list \<Rightarrow> nat \<Rightarrow> (string \<times> json) list \<Rightarrow> string \<Rightarrow> error + json" where
  "count_field lib text i ud edge =
     (if i < length text then Inr (JString (text ! i)) else snapshot_count lib ud edge)"

text \<open>
  The dict that becomes \<^verbatim>\<open>self.profile_data\<close> in InstagramOSINT.py. Its first entry calls
  \<^verbatim>\<open>user_data.get\<close>, which raises AttributeError unless \<^verbatim>\<open>user_data\<close> is a dict; \<open>stamp\<close>
  is the scrape timestamp.
\<close>

fun build_profile_data ::
  "library \<Rightarrow> string \<Rightarrow> string \<Rightarrow> json \<Rightarrow> string list \<Rightarrow> json \<Rightarrow> error + (string \<times> json) list" where
  "build_profile_data lib uname stamp desc text (JObject ud) =
     bind (profile_name desc ud) (\<lambda>name.
     bind (profile_url uname desc) (\<lambda>url.
     bind (count_field lib text 0 ud ''edge_followed_by'') (\<lambda>followers.
     bind (count_field lib text 2 ud ''edge_follow'') (\<lambda>following.
     bind (count_field lib text 4 ud ''edge_owner_to_timeline_media'') (\<lambda>posts.
     Inr [(''Username'', dict_get ud ''username'' JNull),
          (''Profile Name'', name),
          (''URL'', url),
          (''Followers'', followers),
          (''Following'', following),
          (''Posts'', posts),
          (''Bio'', dict_get ud ''biography'' (JString [])),
          (''Profile Picture URL'',
             dict_get ud ''profile_pic_url_hd'' (dict_get ud ''profile_pic_url'' (JString []))),
          (''Is Business Account'', dict_get ud ''is_business_account'' (JBool False)),
          (''Connected to Facebook'', dict_get ud ''connected_fb_page'' JNull),
          (''External URL'', dict_get ud ''external_url'' (JString [])),
          (''Joined Recently'', dict_get ud ''is_joined_recently'' (JBool False)),
          (''Business Category'', dict_get ud ''business_category_name'' (JString [])),
          (''Is Private'', dict_get ud ''is_private'' (JBool False)),
          (''Is Verified'', dict_get ud ''is_verified'' (JBool False)),
          (''Has Guides'', dict_get ud ''has_guides'' (JBool False)),
          (''Has Clips'', dict_get ud ''has_clips'' (JBool False)),
          (''Has AR Effects'', dict_get ud ''has_ar_effects'' (JBool False)),
          (''Has Channel'', dict_get ud ''has_channel'' (JBool False)),
          (''Highlight Reel Count'', dict_get ud ''highlight_reel_count'' (JInt 0)),
          (''Scraped Timestamp'', JString stamp)])))))"
| "build_profile_data lib uname stamp desc text _ = Inl AttributeError"

text \<open>The same dict in main.py: other keys, the same values.\<close>

fun build_profile_data_main ::
  "library \<Rightarrow> string \<Rightarrow> string \<Rightarrow> json \<Rightarrow> string list \<Rightarrow> json \<Rightarrow> error + (string \<times> json) list" where
  "build_profile_data_main lib uname stamp desc text (JObject ud) =
     bind (profile_name desc ud) (\<lambda>name.
     bind (profile_url uname desc) (\<lambda>url.
     bind (count_field lib text 0 ud ''edge_followed_by'') (\<lambda>followers.
     bind (count_field lib text 2 ud ''edge_follow'') (\<lambda>following.
     bind (count_field lib text 4 ud ''edge_owner_to_timeline_media'') (\<lambda>posts.
     Inr [(''username'', dict_get ud ''username'' JNull),
          (''profile_name'', name),
          (''url'', url),
          (''followers'', followers),
          (''following'', following),
          (''posts'', posts),
          (''bio'', dict_get ud ''biography'' (JString [])),
          (''profile_pic_url'',
             dict_get ud ''profile_pic_url_hd'' (dict_get ud ''profile_pic_url'' (JString []))),
          (''is_business_account'', dict_get ud ''is_business_account'' (JBool False)),
          (''connected_to_facebook'', dict_get ud ''connected_fb_page'' JNull),
          (''external_url'', dict_get ud ''external_url'' (JString [])),
          (''joined_recently'', dict_get ud ''is_joined_recently'' (JBool False)),
          (''business_category'', dict_get ud ''business_category_name'' (JString [])),
          (''is_private'', dict_get ud ''is_private'' (JBool False)),
          (''is_verified'', dict_get ud ''is_verified'' (JBool False)),
          (''has_guides'', dict_get ud ''has_guides'' (JBool False)),
          (''has_clips'', dict_get ud ''has_clips'' (JBool False)),
          (''has_ar_effects'', dict_get ud ''has_ar_effects'' (JBool False)),
          (''has_channel'', dict_get ud ''has_channel'' (JBool False)),
          (''highlight_reel_count'', dict_get ud ''highlight_reel_count'' (JInt 0)),
          (''scraped_timestamp'', JString stamp)])))))"
| "build_profile_data_main lib uname stamp desc text _ = Inl AttributeError"

text \<open>
  The \<^verbatim>\<open>try\<close> block shared by \<^verbatim>\<open>scrape_profile\<close> (InstagramOSINT.py) and
  \<^verbatim>\<open>_fetch_profile_data\<close> (main.py), with the exception it ends in as a value. The
  assignments to \<^verbatim>\<open>self.description\<close> and \<^verbatim>\<open>self.profile_meta\<close> made before an exception
  stay. \<open>build\<close> is the dict expression of the file in question.
  \<^verbatim>\<open>
  if not general_data:
      raise ValueError("No general profile data found")
  text = general_data[0].get('content').split()
  self.description = json.loads(description.get_text()) if description else {}
  ... (the loop of find_profile_script)
  if not profile_script:
      raise ValueError("Profile data script not found")
  json_data = profile_script.strip().split(' = ', 1)[1].rstrip(';')
  self.profile_meta = json.loads(json_data)
  user_data = self.profile_meta['entry_data']['ProfilePage'][0]['graphql']['user']
  self.profile_data = { ... }
  \<close>
\<close>

definition parse_profile ::
  "(string \<Rightarrow> string \<Rightarrow> json \<Rightarrow> string list \<Rightarrow> json \<Rightarrow> error + (string \<times> json) list) \<Rightarrow>
   library \<Rightarrow> soup \<Rightarrow> state \<Rightarrow> (error + (string \<times> json) list) \<times> state" where
  "parse_profile build lib page s =
     (case general_data page of
        [] \<Rightarrow> (Inl (ValueError ''No general profile data found''), s)
      | meta # _ \<Rightarrow>
     (case content_attr meta of
        None \<Rightarrow> (Inl AttributeError, s)
      | Some content \<Rightarrow>
     (case (case ld_json page of
              None \<Rightarrow> Inr (JObject [])
            | Some block \<Rightarrow> json_loads lib (tag_text block)) of
        Inl e \<Rightarrow> (Inl e, s)
      | Inr desc \<Rightarrow>
     (let s1 = s\<lparr>description := Some desc\<rparr> in
      case find_profile_script (more_data page) of
        None \<Rightarrow> (Inl (ValueError ''Profile data script not found''), s1)
      | Some profile_script \<Rightarrow>
     (case bind (extract_json_data profile_script) (json_loads lib) of
        Inl e \<Rightarrow> (Inl e, s1)
      | Inr meta_json \<Rightarrow>
     (let s2 = s1\<lparr>profile_meta := Some meta_json\<rparr> in
      case bind (user_node meta_json)
             (build (username s2) (now_isoformat lib (clock s2)) desc (py_split content)) of
        Inl e \<Rightarrow> (Inl e, s2)
      | Inr pd \<Rightarrow> (Inr pd, s2\<lparr>profile_data := pd\<rparr>)))))))"

text \<open>
  \<^verbatim>\<open>
  def scrape_profile(self) -> Optional[Dict]:
      url = f'https://www.instagram.com/{self.username}/'
      response = self._make_request(url)
      if not response:
          return None
      soup = BeautifulSoup(response.text, 'html.parser')
      ...
      try:
          ...
          return self.profile_data
      except Exception as e:
          self.logger.error(...)
          return None
  \<close>
\<close>

definition profile_page_url :: "state \<Rightarrow> json" where
  "profile_page_url s = JString (''https://www.instagram.com/'' @ username s @ ''/'')"

definition scrape_profile :: "library \<Rightarrow> state \<Rightarrow> (string \<times> json) list option \<times> state" where
  "scrape_profile lib s =
     (case make_request (profile_page_url s) s of
        (None, s') \<Rightarrow> (None, s')
      | (Some body, s') \<Rightarrow>
          (case parse_profile (build_profile_data lib) lib (html_parser lib body) s' of
             (Inl e, s'') \<Rightarrow> (None, s'')
           | (Inr pd, s'') \<Rightarrow> (Some pd, s'')))"

text \<open>\<^verbatim>\<open>_fetch_profile_data\<close> of main.py: the same, returning whether it succeeded.\<close>

definition fetch_profile_data :: "library \<Rightarrow> state \<Rightarrow> bool \<times> state" where
  "fetch_profile_data lib s =
     (case make_request_main (profile_page_url s) s of
        (None, s') \<Rightarrow> (False, s')
      | (Some body, s') \<Rightarrow>
          (case parse_profile (build_profile_data_main lib) lib (html_parser lib body) s' of
             (Inl e, s'') \<Rightarrow> (False, s'')
           | (Inr pd, s'') \<Rightarrow> (True, s'')))"

text \<open>A field of the dict a computation produced; \<open>None\<close> when it raised or has no such key.\<close>

definition record_field :: "string \<Rightarrow> error + (string \<times> json) list \<Rightarrow> json option" where
  "record_field k r = (case r of Inl e \<Rightarrow> None | Inr pd \<Rightarrow> map_of pd k)"

section \<open>Posts\<close>

text \<open>
  \<^verbatim>\<open>x[:limit]\<close>: the first \<open>limit\<close> elements of a list or characters of a string (all but
  the last \<open>-limit\<close> when \<open>limit\<close> is negative); other values cannot be sliced.
\<close>

definition slice_to :: "int \<Rightarrow> 'a list \<Rightarrow> 'a list" where
  "slice_to limit xs =
     (if 0 \<le> limit then take (nat limit) xs else take (nat (int (length xs) + limit)) xs)"

fun py_slice_to :: "json \<Rightarrow> int \<Rightarrow> error + json list" where
  "py_slice_to (JArray xs) limit = Inr (slice_to limit xs)"
| "py_slice_to (JString cs) limit = Inr (map (\<lambda>c. JString [c]) (slice_to limit cs))"
| "py_slice_to _ limit = Inl TypeError"

text \<open>
  Equality of dict keys. Python compares numbers by value, and \<^verbatim>\<open>True\<close> and \<^verbatim>\<open>False\<close> are the
  numbers 1 and 0, so \<^verbatim>\<open>1\<close>, \<^verbatim>\<open>1.0\<close> and \<^verbatim>\<open>True\<close> are one key.
\<close>

fun key_number :: "json \<Rightarrow> real option" where
  "key_number (JBool b) = Some (if b then 1 else 0)"
| "key_number (JInt i) = Some (of_int i)"
| "key_number (JFloat r) = Some r"
| "key_number _ = None"

definition key_eq :: "json \<Rightarrow> json \<Rightarrow> bool" where
  "key_eq a b =
     (case (key_number a, key_number b) of
        (Some x, Some y) \<Rightarrow> x = y
      | (None, None) \<Rightarrow> a = b
      | _ \<Rightarrow> False)"

text \<open>
  \<^verbatim>\<open>d[key] = value\<close> on a dict kept in insertion order: an equal key that is already
  there keeps its place and stays as it is, only its value is replaced. A list or a dict
  cannot be a key.
\<close>

fun dict_set :: "(json \<times> 'v) list \<Rightarrow> json \<Rightarrow> 'v \<Rightarrow> (json \<times> 'v) list" where
  "dict_set [] k v = [(k, v)]"
| "dict_set ((k', v') # rest) k v =
     (if key_eq k' k then (k', v) # rest else (k', v') # dict_set rest k v)"

fun hashable :: "json \<Rightarrow> bool" where
  "hashable (JArray xs) = False"
| "hashable (JObject kvs) = False"
| "hashable _ = True"

text \<open>
  \<^verbatim>\<open>
  self.profile_meta['entry_data']['ProfilePage'][0]['graphql']['user'][
      'edge_owner_to_timeline_media']['edges'][:limit]
  \<close>
  \<^verbatim>\<open>self.profile_meta\<close> does not exist before a page was parsed.
\<close>

definition timeline_edges :: "int \<Rightarrow> state \<Rightarrow> error + json list" where
  "timeline_edges limit s =
     (case profile_meta s of
        None \<Rightarrow> Inl AttributeError
      | Some meta \<Rightarrow>
          bind (user_node meta) (\<lambda>u.
          bind (py_item u ''edge_owner_to_timeline_media'') (\<lambda>m.
          bind (py_item m ''edges'') (\<lambda>e. py_slice_to e limit))))"

text \<open>
  \<^verbatim>\<open>
  post_node.get('edge_media_to_caption', {}).get('edges', [{}])[0].get('node', {}).get('text', '')
  \<close>
  for a dict \<open>node\<close>.
\<close>

definition caption :: "(string \<times> json) list \<Rightarrow> error + json" where
  "caption node =
     bind (py_get (dict_get node ''edge_media_to_caption'' (JObject [])) ''edges'' (JArray [JObject []])) (\<lambda>edges.
     bind (py_first edges) (\<lambda>first.
     bind (py_get first ''node'' (JObject [])) (\<lambda>n.
     py_get n ''text'' (JString []))))"

text \<open>\<^verbatim>\<open>post_node.get(edge, {}).get('count', 0)\<close>\<close>

definition edge_count :: "(string \<times> json) list \<Rightarrow> string \<Rightarrow> error + json" where
  "edge_count node edge = py_get (dict_get node edge (JObject [])) ''count'' (JInt 0)"

text \<open>
  One iteration of the loop of \<^verbatim>\<open>scrape_posts\<close> (InstagramOSINT.py): the post's id and its
  record.
  \<^verbatim>\<open>
  post_node = post['node']
  post_id = post_node['id']
  posts[post_id] = {
      "Caption": ...,
      "Comments Count": post_node.get('edge_media_to_comment', {}).get('count', 0),
      "Comments Disabled": post_node.get('comments_disabled', False),
      "Timestamp": post_node.get('taken_at_timestamp', 0),
      "Date": datetime.fromtimestamp(post_node.get('taken_at_timestamp', 0)).isoformat(),
      "Likes Count": post_node.get('edge_liked_by', {}).get('count', 0),
      "Location": post_node.get('location', {}),
      "Accessibility Caption": post_node.get('accessibility_caption', ''),
      "Is Video": post_node.get('is_video', False),
      "Video Views": post_node.get('video_view_count', 0) if post_node.get('is_video', False) else None,
      "Shortcode": post_node.get('shortcode', ''),
      "Dimensions": post_node.get('dimensions', {}),
      "Display URL": post_node.get('display_url', ''),
      "Thumbnail Resources": post_node.get('thumbnail_resources', []),
      "Post URL": f"https://www.instagram.com/p/{post_node.get('shortcode', '')}/"
  }
  \<close>
  \<^verbatim>\<open>post_node['id']\<close> raises unless \<^verbatim>\<open>post_node\<close> is a dict that has the key.
\<close>

definition post_record :: "library \<Rightarrow> json \<Rightarrow> error + json \<times> (string \<times> json) list" where
  "post_record lib post =
     bind (py_item post ''node'') (\<lambda>post_node.
     bind (py_item post_node ''id'') (\<lambda>post_id.
     (case post_node of
        JObject node \<Rightarrow>
          bind (caption node) (\<lambda>cap.
          bind (edge_count node ''edge_media_to_comment'') (\<lambda>comments.
          bind (fromtimestamp_isoformat lib (dict_get node ''taken_at_timestamp'' (JInt 0))) (\<lambda>date.
          bind (edge_count node ''edge_liked_by'') (\<lambda>likes.
          Inr (post_id,
            [(''Caption'', cap),
             (''Comments Count'', comments),
             (''Comments Disabled'', dict_get node ''comments_disabled'' (JBool False)),
             (''Timestamp'', dict_get node ''taken_at_timestamp'' (JInt 0)),
             (''Date'', JString date),
             (''Likes Count'', likes),
             (''Location'', dict_get node ''location'' (JObject [])),
             (''Accessibility Caption'', dict_get node ''accessibility_caption'' (JString [])),
             (''Is Video'', dict_get node ''is_video'' (JBool False)),
             (''Video Views'',
                if truthy (dict_get node ''is_video'' (JBool False))
                then dict_get node ''video_view_count'' (JInt 0) else JNull),
             (''Shortcode'', dict_get node ''shortcode'' (JString [])),
             (''Dimensions'', dict_get node ''dimensions'' (JObject [])),
             (''Display URL'', dict_get node ''display_url'' (JString [])),
             (''Thumbnail Resources'', dict_get node ''thumbnail_resources'' (JArray [])),
             (''Post URL'',
                JString (''https://www.instagram.com/p/''
                         @ py_str lib (dict_get node ''shortcode'' (JString [])) @ ''/''))])))))
      | _ \<Rightarrow> Inl TypeError)))"

text \<open>The loop: the first exception ends it.\<close>

fun collect_posts ::
  "library \<Rightarrow> json list \<Rightarrow> (json \<times> (string \<times> json) list) list \<Rightarrow>
   error + (json \<times> (string \<times> json) list) list" where
  "collect_posts lib [] posts = Inr posts"
| "collect_posts lib (post # edges) posts =
     bind (post_record lib post) (\<lambda>(post_id, record).
       if hashable post_id then collect_posts lib edges (dict_set posts post_id record)
       else Inl TypeError)"

text \<open>
  \<^verbatim>\<open>
  def scrape_posts(self, limit: int = 12) -> Optional[Dict]:
      if not self.profile_data:
          return None
      if self.profile_data.get('Is Private', True):
          return None
      posts = {}
      try:
          edges = ...
          for index, post in enumerate(edges):
              ...
          return posts
      except Exception as e:
          return None
  \<close>
\<close>

definition scrape_posts :: "library \<Rightarrow> int \<Rightarrow> state \<Rightarrow> (json \<times> (string \<times> json) list) list option" where
  "scrape_posts lib limit s =
     (if profile_data s = [] then None
      else if truthy (dict_get (profile_data s) ''Is Private'' (JBool True)) then None
      else (case bind (timeline_edges limit s) (\<lambda>edges. collect_posts lib edges []) of
              Inl e \<Rightarrow> None
            | Inr posts \<Rightarrow> Some posts))"

section \<open>Files and media\<close>

text \<open>\<^verbatim>\<open>os.path.join(a, b)\<close> on POSIX.\<close>

definition path_join :: "string \<Rightarrow> string \<Rightarrow> string" where
  "path_join a b =
     (if starts_with ''/'' b then b
      else if a = [] \<or> last a = CHR ''/'' then a @ b
      else a @ ''/'' @ b)"




text \<open>
  The paths before each slash of \<open>p\<close>, shortest first: the directories the walk of \<open>p\<close>
  passes through, and the parents \<^verbatim>\<open>os.makedirs\<close> creates when they are missing.
\<close>

definition parents :: "string \<Rightarrow> string list" where
  "parents p = map (\<lambda>i. take i p) (filter (\<lambda>i. p ! i = CHR ''/'') [1..<length p])"




text \<open>
  \<^verbatim>\<open>os.makedirs(p)\<close> creates the directory and every missing parent; the model records
  all of them. It is the successful call. Besides the failures of the operating system,
  \<^verbatim>\<open>os.makedirs\<close> raises when a file stands where a directory is to be, and without
  \<^verbatim>\<open>exist_ok\<close> also when \<open>p\<close> is there once its parents are. For the two calls of
  \<^verbatim>\<open>_create_output_directory\<close> the first can only happen when the results directory is a
  file, the second only when the username has a slash in it (as in \<^verbatim>\<open>a/..\<close>).
\<close>

definition makedirs :: "string \<Rightarrow> state \<Rightarrow> state" where
  "makedirs p s = s\<lparr>dirs := dirs s @ parents p @ [p]\<rparr>"

definition write_file :: "string \<Rightarrow> content \<Rightarrow> state \<Rightarrow> state" where
  "write_file p c s = s\<lparr>files := files s @ [(p, c)]\<rparr>"

text \<open>
  The loop over \<^verbatim>\<open>posts.items()\<close> in \<^verbatim>\<open>download_media\<close>:
  \<^verbatim>\<open>
  media_url = post_data.get('Display URL')
  if not media_url:
      continue
  response = self._make_request(media_url)
  if response:
      ext = 'mp4' if post_data.get('Is Video') else 'jpg'
      filename = os.path.join(posts_dir, f"{post_id}.{ext}")
      with open(filename, 'wb') as f:
          f.write(response.content)
  \<close>
\<close>

fun download_post_media ::
  "library \<Rightarrow> string \<Rightarrow> (json \<times> (string \<times> json) list) list \<Rightarrow> state \<Rightarrow> state" where
  "download_post_media lib posts_dir [] s = s"
| "download_post_media lib posts_dir ((post_id, post_data) # rest) s =
     (let media_url = dict_get post_data ''Display URL'' JNull in
      if \<not> truthy media_url then download_post_media lib posts_dir rest s
      else (case make_request media_url s of
              (None, s') \<Rightarrow> download_post_media lib posts_dir rest s'
            | (Some body, s') \<Rightarrow>
                (let ext = (if truthy (dict_get post_data ''Is Video'' JNull) then ''mp4'' else ''jpg'');
                     filename = path_join posts_dir (py_str lib post_id @ ''.'' @ ext)
                 in download_post_media lib posts_dir rest (write_file filename (Body body) s'))))"

text \<open>
  \<^verbatim>\<open>
  def download_media(self, output_dir: str = None, limit: int = 12) -> bool:
      if not self.profile_data:
          return False
      output_dir = output_dir or self.username
      os.makedirs(output_dir, exist_ok=True)
      # Download profile picture
      profile_pic_url = self.profile_data.get('Profile Picture URL')
      if profile_pic_url:
          try:
              response = self._make_request(profile_pic_url)
              if response:
                  filename = os.path.join(output_dir, f"{self.username}_profile_pic.jpg")
                  with open(filename, 'wb') as f:
                      f.write(response.content)
          except Exception as e: ...
      # Download posts if not private
      if not self.profile_data.get('Is Private', True):
          posts = self.scrape_posts(limit=limit)
          if posts:
              posts_dir = os.path.join(output_dir, "posts")
              os.makedirs(posts_dir, exist_ok=True)
              with open(os.path.join(posts_dir, 'posts_metadata.json'), 'w') as f:
                  json.dump(posts, f, indent=2)
              for post_id, post_data in posts.items(): ...
      return True
  \<close>
\<close>

text \<open>
  The three parts of \<^verbatim>\<open>download_media\<close> after the first check: \<^verbatim>\<open>output_dir or self.username\<close>,
  the profile picture, and the posts.
\<close>

definition download_profile_pic :: "string \<Rightarrow> state \<Rightarrow> state" where
  "download_profile_pic output_dir s =
     (let profile_pic_url = dict_get (profile_data s) ''Profile Picture URL'' JNull in
      if truthy profile_pic_url
      then (case make_request profile_pic_url s of
              (None, s') \<Rightarrow> s'
            | (Some body, s') \<Rightarrow>
                write_file (path_join output_dir (username s' @ ''_profile_pic.jpg'')) (Body body) s')
      else s)"

definition download_posts :: "library \<Rightarrow> string \<Rightarrow> int \<Rightarrow> state \<Rightarrow> state" where
  "download_posts lib output_dir limit s =
     (if \<not> truthy (dict_get (profile_data s) ''Is Private'' (JBool True))
      then (case scrape_posts lib limit s of
              None \<Rightarrow> s
            | Some posts \<Rightarrow>
                if posts \<noteq> []
                then (let posts_dir = path_join output_dir ''posts'';
                          s1 = makedirs posts_dir s;
                          s2 = write_file (path_join posts_dir ''posts_metadata.json'') (PostsDict posts) s1
                      in download_post_media lib posts_dir posts s2)
                else s)
      else s)"

definition dir_or_username :: "string option \<Rightarrow> state \<Rightarrow> string" where
  "dir_or_username output_dir s =
     (case output_dir of
        None \<Rightarrow> username s
      | Some d \<Rightarrow> if d \<noteq> [] then d else username s)"

definition download_media :: "library \<Rightarrow> string option \<Rightarrow> int \<Rightarrow> state \<Rightarrow> bool \<times> state" where
  "download_media lib output_dir limit s =
     (if profile_data s = [] then (False, s)
      else (let out = dir_or_username output_dir s;
                s1 = makedirs out s;
                s2 = download_profile_pic out s1;
                s3 = download_posts lib out limit s2
            in (True, s3)))"

section \<open>The downloads of main.py\<close>

text \<open>
  \<^verbatim>\<open>
  def _download_profile_picture(self) -> None:
      pic_url = self.profile_data.get('profile_pic_url')
      if not pic_url:
          return
      try:
          response = self._make_request(pic_url)
          if response:
              filename = os.path.join(self.output_dir, f"{self.username}_profile_pic.jpg")
              with open(filename, 'wb') as f:
                  f.write(response.content)
      except Exception as e: ...
  \<close>
\<close>

definition download_profile_picture :: "state \<Rightarrow> state" where
  "download_profile_picture s =
     (let pic_url = dict_get (profile_data s) ''profile_pic_url'' JNull in
      if \<not> truthy pic_url then s
      else (case make_request_main pic_url s of
              (None, s') \<Rightarrow> s'
            | (Some body, s') \<Rightarrow>
                write_file (path_join (self_output_dir s') (username s' @ ''_profile_pic.jpg'')) (Body body) s'))"

text \<open>
  The body of the loop of \<^verbatim>\<open>_download_posts\<close>: the post's metadata, then its media, then a
  random pause. An exception raised while the metadata is built leaves the loop.
  \<^verbatim>\<open>post_node.get('display_url')\<close> and \<^verbatim>\<open>post_data['display_url']\<close> differ only in the falsy
  value they have when the key is missing, so the model reads the latter.
  \<^verbatim>\<open>
  post_node = post['node']
  post_id = post_node['id']
  post_data = {
      "id": post_id,
      "caption": ...,
      "comments_count": post_node.get('edge_media_to_comment', {}).get('count', 0),
      "likes_count": post_node.get('edge_liked_by', {}).get('count', 0),
      "timestamp": post_node.get('taken_at_timestamp', 0),
      "is_video": post_node.get('is_video', False),
      "shortcode": post_node.get('shortcode', ''),
      "display_url": post_node.get('display_url', '')
  }
  posts_data.append(post_data)
  media_url = post_node.get('display_url')
  if media_url:
      try:
          response = self._make_request(media_url)
          if response:
              ext = 'mp4' if post_data['is_video'] else 'jpg'
              filename = os.path.join(posts_dir, f"{post_id}.{ext}")
              with open(filename, 'wb') as f:
                  f.write(response.content)
      except Exception as e: ...
  time.sleep(random.uniform(1, 3))
  \<close>
\<close>

definition post_data_main :: "json \<Rightarrow> error + (string \<times> json) list" where
  "post_data_main post =
     bind (py_item post ''node'') (\<lambda>post_node.
     bind (py_item post_node ''id'') (\<lambda>post_id.
     (case post_node of
        JObject node \<Rightarrow>
          bind (caption node) (\<lambda>cap.
          bind (edge_count node ''edge_media_to_comment'') (\<lambda>comments.
          bind (edge_count node ''edge_liked_by'') (\<lambda>likes.
          Inr [(''id'', post_id),
               (''caption'', cap),
               (''comments_count'', comments),
               (''likes_count'', likes),
               (''timestamp'', dict_get node ''taken_at_timestamp'' (JInt 0)),
               (''is_video'', dict_get node ''is_video'' (JBool False)),
               (''shortcode'', dict_get node ''shortcode'' (JString [])),
               (''display_url'', dict_get node ''display_url'' (JString []))])))
      | _ \<Rightarrow> Inl TypeError)))"

fun download_each ::
  "library \<Rightarrow> string \<Rightarrow> json list \<Rightarrow> (string \<times> json) list list \<Rightarrow> state \<Rightarrow>
   (error + (string \<times> json) list list) \<times> state" where
  "download_each lib posts_dir [] posts_data s = (Inr posts_data, s)"
| "download_each lib posts_dir (post # edges) posts_data s =
     (case post_data_main post of
        Inl e \<Rightarrow> (Inl e, s)
      | Inr post_data \<Rightarrow>
          (let media_url = dict_get post_data ''display_url'' JNull;
               s1 = (if truthy media_url
                     then (case make_request_main media_url s of
                             (None, s') \<Rightarrow> s'
                           | (Some body, s') \<Rightarrow>
                               (let ext = (if truthy (dict_get post_data ''is_video'' JNull)
                                           then ''mp4'' else ''jpg'');
                                    filename = path_join posts_dir
                                      (py_str lib (dict_get post_data ''id'' JNull) @ ''.'' @ ext)
                                in write_file filename (Body body) s'))
                     else s);
               s2 = (sleep Delay (random_uniform lib (draws s1)) s1)\<lparr>draws := Suc (draws s1)\<rparr>
           in download_each lib posts_dir edges (posts_data @ [post_data]) s2))"

text \<open>
  \<^verbatim>\<open>
  def _download_posts(self, limit: int = 12) -> None:
      try:
          edges = ...[:limit]
          posts_dir = os.path.join(self.output_dir, "posts")
          os.makedirs(posts_dir, exist_ok=True)
          posts_data = []
          for index, post in enumerate(edges): ...
          with open(os.path.join(posts_dir, 'posts_metadata.json'), 'w') as f:
              json.dump(posts_data, f, indent=2)
      except Exception as e: ...
  \<close>
\<close>

definition download_posts_main :: "library \<Rightarrow> int \<Rightarrow> state \<Rightarrow> state" where
  "download_posts_main lib limit s =
     (case timeline_edges limit s of
        Inl e \<Rightarrow> s
      | Inr edges \<Rightarrow>
          (let posts_dir = path_join (self_output_dir s) ''posts'';
               s1 = makedirs posts_dir s
           in case download_each lib posts_dir edges [] s1 of
                (Inl e, s2) \<Rightarrow> s2
              | (Inr posts_data, s2) \<Rightarrow>
                  write_file (path_join posts_dir ''posts_metadata.json'') (PostsList posts_data) s2))"

text \<open>
  \<^verbatim>\<open>
  def _download_content(self) -> None:
      if self.profile_data.get('is_private', True):
          self.logger.warning("Cannot download content from private profile")
          return
      self._download_profile_picture()
      self._download_posts()
  \<close>
\<close>

definition download_content :: "library \<Rightarrow> state \<Rightarrow> state" where
  "download_content lib s =
     (if truthy (dict_get (profile_data s) ''is_private'' (JBool True)) then s
      else download_posts_main lib 12 (download_profile_picture s))"

section \<open>The output directory of main.py\<close>

text \<open>The decimal digits of a number, as an f-string prints an \<^verbatim>\<open>int\<close> counter.\<close>

definition digit :: "nat \<Rightarrow> char" where
  "digit d = ''0123456789'' ! d"

fun decimal :: "nat \<Rightarrow> string" where
  "decimal n = (if n < 10 then [digit n] else decimal (n div 10) @ [digit (n mod 10)])"

declare decimal.simps [simp del]







section \<open>A sample page\<close>

text \<open>
  The inline snapshot script of a small public profile with one post that has no caption,
  and the value \<^verbatim>\<open>json.loads\<close> gives for its JSON literal.
\<close>

definition snapshot_text :: string where
  \<open>snapshot_text = ''{"entry_data": {"ProfilePage": [{"graphql": {"user": {"username": "alice", "full_name": "Alice A", "is_private": false, "profile_pic_url": "https://cdn.test/alice.jpg", "edge_followed_by": {"count": 10}, "edge_owner_to_timeline_media": {"count": 1, "edges": [{"node": {"id": "77", "display_url": "https://cdn.test/77.jpg", "edge_media_to_caption": {"edges": []}}}]}}}}]}}''\<close>

definition snapshot_script :: string where
  "snapshot_script = ''window._sharedData = '' @ snapshot_text @ '';''"

definition sample_post :: json where
  "sample_post =
     JObject [(''node'', JObject
       [(''id'', JString ''77''),
        (''display_url'', JString ''https://cdn.test/77.jpg''),
        (''edge_media_to_caption'', JObject [(''edges'', JArray [])])])]"

definition sample_user :: "(string \<times> json) list" where
  "sample_user =
     [(''username'', JString ''alice''),
      (''full_name'', JString ''Alice A''),
      (''is_private'', JBool False),
      (''profile_pic_url'', JString ''https://cdn.test/alice.jpg''),
      (''edge_followed_by'', JObject [(''count'', JInt 10)]),
      (''edge_owner_to_timeline_media'',
         JObject [(''count'', JInt 1), (''edges'', JArray [sample_post])])]"

definition snapshot :: json where
  "snapshot =
     JObject [(''entry_data'', JObject [(''ProfilePage'', JArray
       [JObject [(''graphql'', JObject [(''user'', JObject sample_user)])]])])]"

text \<open>A JSON-LD block that has a type but neither a name nor a page id.\<close>

definition ld_text :: string where
  \<open>ld_text = ''{"@type": "Person"}''\<close>

definition ld_value :: json where
  "ld_value = JObject [(''@type'', JString ''Person'')]"

text \<open>
  Library functions for the sample: \<^verbatim>\<open>json.loads\<close> knows the two texts above and rejects
  everything else, which is right for every other text used below; the HTML parser
  finds the same sample page in every body; \<^verbatim>\<open>str\<close> is given on strings and integers
  only.
\<close>

definition sample_page :: soup where
  "sample_page =
     \<lparr>general_data =
        [\<lparr>content_attr = Some ''10 Followers, 20 Following, 30 Posts'',
          tag_string = None, tag_text = []\<rparr>],
      more_data =
        [\<lparr>content_attr = None, tag_string = Some ''var x = 1;'', tag_text = ''var x = 1;''\<rparr>,
         \<lparr>content_attr = None,
          tag_string = Some snapshot_script, tag_text = snapshot_script\<rparr>],
      ld_json = Some \<lparr>content_attr = None, tag_string = Some ld_text, tag_text = ld_text\<rparr>\<rparr>"

definition sample_library :: library where
  "sample_library =
     \<lparr>html_parser = (\<lambda>body. sample_page),
      json_loads = (\<lambda>t. if t = snapshot_text then Inr snapshot
                          else if t = ld_text then Inr ld_value
                          else Inl JSONDecodeError),
      py_str = (\<lambda>v. case v of
                       JString str \<Rightarrow> str
                     | JInt i \<Rightarrow> (if 0 \<le> i then decimal (nat i) else ''-'' @ decimal (nat (- i)))
                     | _ \<Rightarrow> ''?''),
      now_isoformat = (\<lambda>t. ''2024-01-01T00:00:00''),
      fromtimestamp_isoformat = (\<lambda>v. Inr ''1970-01-01T00:00:00''),
      random_uniform = (\<lambda>n. 2)\<rparr>"

text \<open>The same page with a JSON-LD block that is not JSON, and with no snapshot script.\<close>

definition broken_ld_page :: soup where
  "broken_ld_page =
     sample_page\<lparr>ld_json := Some \<lparr>content_attr = None, tag_string = Some ''{name: }'',
                                  tag_text = ''{name: }''\<rparr>\<rparr>"

definition no_snapshot_page :: soup where
  "no_snapshot_page =
     sample_page\<lparr>more_data :=
        [\<lparr>content_attr = None, tag_string = Some ''var x = 1;'', tag_text = ''var x = 1;''\<rparr>]\<rparr>"

text \<open>Both defects at once: no snapshot script, and a JSON-LD block that is not JSON.\<close>

definition no_snapshot_broken_ld_page :: soup where
  "no_snapshot_broken_ld_page = no_snapshot_page\<lparr>ld_json := ld_json broken_ld_page\<rparr>"

text \<open>
  A private profile, as the normaliser of either file builds it from a private snapshot
  user, and the same on a network on which every request fails.
\<close>

definition private_user :: "(string \<times> json) list" where
  "private_user =
     [(''username'', JString ''alice''),
      (''is_private'', JBool True),
      (''profile_pic_url'', JString ''https://cdn.test/alice.jpg'')]"

definition private_state :: state where
  "private_state =
     (case build_profile_data sample_library ''alice'' ''2024-01-01T00:00:00'' (JObject [])
             [''10'', ''Followers,'', ''20'', ''Following,'', ''30'', ''Posts'']
             (JObject private_user) of
        Inl e \<Rightarrow> flaky_state
      | Inr pd \<Rightarrow> flaky_state\<lparr>profile_data := pd\<rparr>)"

definition private_state_main :: state where
  "private_state_main =
     (case build_profile_data_main sample_library ''alice'' ''2024-01-01T00:00:00'' (JObject [])
             [''10'', ''Followers,'', ''20'', ''Following,'', ''30'', ''Posts'']
             (JObject private_user) of
        Inl e \<Rightarrow> flaky_state
      | Inr pd \<Rightarrow> flaky_state\<lparr>profile_data := pd\<rparr>)"


section \<open>Properties of the fetcher\<close>

lemma issue_times_append: "issue_times (xs @ ys) = issue_times xs @ issue_times ys"
  by (induction xs rule: issue_times.induct) simp_all

lemma spaced_snoc:
  "spaced m (ts @ [t]) = (spaced m ts \<and> (ts = [] \<or> m \<le> t - last ts))"
  by (induction m ts rule: spaced.induct) auto

lemma rate_limit_fields:
  "max_retries (rate_limit s) = max_retries s"
  "network (rate_limit s) = network s"
  "sent (rate_limit s) = sent s"
  "min_request_interval (rate_limit s) = min_request_interval s"
  "last_request_time (rate_limit s) = clock (rate_limit s)"
  "issue_times (trace (rate_limit s)) = issue_times (trace s)"
  by (simp_all add: rate_limit_def sleep_def Let_def issue_times_append)

lemma rate_limit_waits:
  "last_request_time s + min_request_interval s \<le> clock (rate_limit s)"
  by (simp add: rate_limit_def sleep_def Let_def)

lemma paced_attempt:
  assumes "paced s"
  shows "paced (snd (session_get url (rate_limit s)))"
  using assms rate_limit_waits[of s]
  by (auto simp: paced_def session_get_def rate_limit_fields issue_times_append spaced_snoc split: prod.splits)

lemma paced_sleep: "paced s \<Longrightarrow> paced (sleep Backoff d s)"
  by (simp add: paced_def sleep_def issue_times_append)

declare request_with_retries.simps [simp del]

lemma retries_success:
  "session_get url (rate_limit s) = (Some r, s') \<Longrightarrow> request_with_retries bound url k s = (Some r, s')"
  by (simp add: request_with_retries.simps)

lemma retries_again:
  "session_get url (rate_limit s) = (None, s') \<Longrightarrow> int k < bound \<Longrightarrow>
   request_with_retries bound url k s =
   request_with_retries bound url (Suc k) (sleep Backoff (2 ^ k) s')"
  by (simp add: request_with_retries.simps)

lemma retries_giveup:
  "session_get url (rate_limit s) = (None, s') \<Longrightarrow> \<not> int k < bound \<Longrightarrow>
   request_with_retries bound url k s = (None, s')"
  by (simp add: request_with_retries.simps)

lemma paced_retries: "paced s \<Longrightarrow> paced (snd (request_with_retries bound url k s))"
proof (induction "nat (bound - int k)" arbitrary: k s)
  case 0
  obtain r s' where g: "session_get url (rate_limit s) = (r, s')"
    by (cases "session_get url (rate_limit s)")
  have p: "paced s'" using paced_attempt[OF "0.prems", of url] g by simp
  show ?case
  proof (cases r)
    case None
    with 0 g p show ?thesis by (simp add: retries_giveup)
  next
    case (Some b)
    with g p show ?thesis by (simp add: retries_success)
  qed
next
  case (Suc n)
  obtain r s' where g: "session_get url (rate_limit s) = (r, s')"
    by (cases "session_get url (rate_limit s)")
  have p: "paced s'" using paced_attempt[OF Suc.prems, of url] g by simp
  show ?case
  proof (cases r)
    case None
    have lt: "int k < bound" using Suc.hyps(2) by linarith
    have "n = nat (bound - int (Suc k))" using Suc.hyps(2) by linarith
    from Suc.hyps(1)[OF this paced_sleep[OF p]] show ?thesis
      using g None lt by (simp add: retries_again)
  next
    case (Some b)
    with g p show ?thesis by (simp add: retries_success)
  qed
qed

lemma paced_run: "paced s \<Longrightarrow> paced (run as s)"
proof (induction as arbitrary: s)
  case Nil
  then show ?case by simp
next
  case (Cons a as)
  show ?case
  proof (cases a)
    case (Fetch url)
    then show ?thesis using Cons.IH[OF paced_retries[OF Cons.prems]] by (simp add: make_request_def)
  next
    case (FetchMain url)
    then show ?thesis
      using Cons.IH[OF paced_retries[OF Cons.prems]] by (simp add: make_request_main_def)
  next
    case (Idle d)
    have "paced (s\<lparr>clock := clock s + d\<rparr>)" using Cons.prems by (simp add: paced_def)
    from Cons.IH[OF this] show ?thesis using Idle by simp
  qed
qed

lemma retries_keeps:
  assumes "\<And>s. f (rate_limit s) = f s"
    and "\<And>u s. f (snd (session_get u s)) = f s"
    and "\<And>d s. f (sleep Backoff d s) = f s"
  shows "f (snd (request_with_retries bound url k s)) = f s"
proof (induction "nat (bound - int k)" arbitrary: k s)
  case 0
  obtain r s' where g: "session_get url (rate_limit s) = (r, s')"
    by (cases "session_get url (rate_limit s)")
  have p: "f s' = f s" using assms(1)[of s] assms(2)[of url "rate_limit s"] g by simp
  show ?case
  proof (cases r)
    case None
    with 0 g p show ?thesis by (simp add: retries_giveup)
  next
    case (Some b)
    with g p show ?thesis by (simp add: retries_success)
  qed
next
  case (Suc n)
  obtain r s' where g: "session_get url (rate_limit s) = (r, s')"
    by (cases "session_get url (rate_limit s)")
  have p: "f s' = f s" using assms(1)[of s] assms(2)[of url "rate_limit s"] g by simp
  show ?case
  proof (cases r)
    case None
    have lt: "int k < bound" using Suc.hyps(2) by linarith
    have "n = nat (bound - int (Suc k))" using Suc.hyps(2) by linarith
    from Suc.hyps(1)[OF this, of "sleep Backoff (2 ^ k) s'"] show ?thesis
      using g None lt p assms(3) by (simp add: retries_again)
  next
    case (Some b)
    with g p show ?thesis by (simp add: retries_success)
  qed
qed

lemma session_get_fields:
  "max_retries (snd (session_get u s)) = max_retries s"
  "network (snd (session_get u s)) = network s"
  "min_request_interval (snd (session_get u s)) = min_request_interval s"
  "username (snd (session_get u s)) = username s"
  "profile_data (snd (session_get u s)) = profile_data s"
  "description (snd (session_get u s)) = description s"
  "profile_meta (snd (session_get u s)) = profile_meta s"
  "dirs (snd (session_get u s)) = dirs s"
  "files (snd (session_get u s)) = files s"
  by (simp_all add: session_get_def split: prod.splits)

lemma rate_limit_object:
  "username (rate_limit s) = username s"
  "profile_data (rate_limit s) = profile_data s"
  "description (rate_limit s) = description s"
  "profile_meta (rate_limit s) = profile_meta s"
  "dirs (rate_limit s) = dirs s"
  "files (rate_limit s) = files s"
  by (simp_all add: rate_limit_def sleep_def Let_def)

lemma retries_fields:
  "max_retries (snd (request_with_retries bound url k s)) = max_retries s"
  "network (snd (request_with_retries bound url k s)) = network s"
  "min_request_interval (snd (request_with_retries bound url k s)) = min_request_interval s"
  "username (snd (request_with_retries bound url k s)) = username s"
  "profile_data (snd (request_with_retries bound url k s)) = profile_data s"
  "description (snd (request_with_retries bound url k s)) = description s"
  "profile_meta (snd (request_with_retries bound url k s)) = profile_meta s"
  "dirs (snd (request_with_retries bound url k s)) = dirs s"
  "files (snd (request_with_retries bound url k s)) = files s"
  by (rule retries_keeps; simp add: rate_limit_fields rate_limit_object session_get_fields sleep_def)+

lemma run_min_interval: "min_request_interval (run as s) = min_request_interval s"
proof (induction as arbitrary: s)
  case Nil
  show ?case by simp
next
  case (Cons a as)
  then show ?case by (cases a) (simp_all add: make_request_def make_request_main_def retries_fields)
qed



lemma schedule_append: "schedule (xs @ ys) = schedule xs @ schedule ys"
  by (induction xs rule: schedule.induct) simp_all

lemma rate_limit_schedule: "schedule (trace (rate_limit s)) = schedule (trace s)"
  by (simp add: rate_limit_def sleep_def Let_def schedule_append)

lemma attempt_effect:
  assumes "session_get url (rate_limit s) = (r, s')"
  shows "r = snd (network s (sent s))" "sent s' = Suc (sent s)" "network s' = network s"
    "schedule (trace s') = schedule (trace s) @ [None]"
  using assms
  by (auto simp: session_get_def rate_limit_fields rate_limit_schedule schedule_append split: prod.splits)

lemma failing_then_Suc: "failing_then k (Suc n) = [None, Some (2 ^ k)] @ failing_then (Suc k) n"
proof -
  have "[k..<k + Suc n] = k # [Suc k..<Suc k + n]"
    by (simp add: upt_conv_Cons del: upt_Suc)
  then show ?thesis by (simp add: failing_then_def del: upt_Suc)
qed

lemma retries_succeed:
  assumes "\<forall>i<n. snd (network s (sent s + i)) = None"
    and "snd (network s (sent s + n)) = Some r"
    and "int k + int n \<le> bound"
  shows "fst (request_with_retries bound url k s) = Some r \<and>
         sent (snd (request_with_retries bound url k s)) = sent s + n + 1 \<and>
         schedule (trace (snd (request_with_retries bound url k s))) =
           schedule (trace s) @ failing_then k n @ [None]"
  using assms
proof (induction n arbitrary: k s)
  case 0
  obtain x s' where g: "session_get url (rate_limit s) = (x, s')"
    by (cases "session_get url (rate_limit s)")
  have "x = Some r" using attempt_effect(1)[OF g] "0.prems"(2) by simp
  then show ?case using g attempt_effect[OF g] by (simp add: retries_success failing_then_def)
next
  case (Suc n)
  obtain x s' where g: "session_get url (rate_limit s) = (x, s')"
    by (cases "session_get url (rate_limit s)")
  have x: "x = None" using attempt_effect(1)[OF g] Suc.prems(1) by force
  have lt: "int k < bound" using Suc.prems(3) by linarith
  let ?s = "sleep Backoff (2 ^ k) s'"
  have st: "sent ?s = Suc (sent s)" "network ?s = network s"
    "schedule (trace ?s) = schedule (trace s) @ [None, Some (2 ^ k)]"
    using attempt_effect[OF g] by (simp_all add: sleep_def schedule_append)
  have a: "\<forall>i<n. snd (network ?s (sent ?s + i)) = None"
    using Suc.prems(1) st by auto
  have b: "snd (network ?s (sent ?s + n)) = Some r"
    using Suc.prems(2) st by simp
  have c: "int (Suc k) + int n \<le> bound" using Suc.prems(3) by simp
  have eq: "request_with_retries bound url k s = request_with_retries bound url (Suc k) ?s"
    using g x lt by (simp add: retries_again)
  show ?case using Suc.IH[OF a b c] st
    by (simp add: eq failing_then_Suc)
qed




text \<open>
  C4. Whatever one fetcher instance is asked to do (any sequence of fetches, with any
  pauses between them, each fetch retrying as the network dictates), two successive
  requests are never issued less than \<^verbatim>\<open>min_request_interval\<close> apart: \<^verbatim>\<open>_rate_limit\<close>
  runs before every attempt and sleeps for the rest of the interval. The instance starts
  with no request issued. This holds for the fetcher of either file.
\<close>

theorem requests_paced:
  assumes "issue_times (trace s) = []"
  shows "spaced (min_request_interval s) (issue_times (trace (run as s)))"
proof -
  have "paced s" using assms by (simp add: paced_def)
  then have "paced (run as s)" by (rule paced_run)
  then show ?thesis by (simp add: paced_def run_min_interval)
qed

theorem requests_paced_witness:
  "issue_times (trace flaky_state) = [] \<and>
   spaced 2 (issue_times (trace (run [Fetch (JString ''u''), Idle 1, FetchMain (JString ''v'')] flaky_state)))"
  using requests_paced [of flaky_state "[Fetch (JString ''u''), Idle 1, FetchMain (JString ''v'')]"]
  by (simp add: flaky_state_def)



section \<open>Properties of parsing and normalisation\<close>

lemma bind_simps [simp]: "bind (Inl e) f = Inl e" "bind (Inr v) f = f v"
  by (simp_all add: bind_def)

lemma bind_Inr_iff: "bind x f = Inr y \<longleftrightarrow> (\<exists>v. x = Inr v \<and> f v = Inr y)"
  by (cases x) simp_all

lemmas string_defs = py_split_def is_space_def extract_json_data_def py_strip_def rstrip_semicolon_def

subsection \<open>The sample page, evaluated\<close>

lemma sample_script: "extract_json_data snapshot_script = Inr snapshot_text"
  by (simp add: snapshot_script_def snapshot_text_def string_defs)

lemma sample_script_marked: "snapshot_script \<noteq> [] \<and> contains ''window._sharedData'' snapshot_script"
  by (simp add: snapshot_script_def)

lemma sample_texts_differ:
  "ld_text \<noteq> snapshot_text" "''{name: }'' \<noteq> snapshot_text" "''{name: }'' \<noteq> ld_text"
  by (simp_all add: snapshot_text_def ld_text_def)

lemma sample_loads:
  "json_loads sample_library snapshot_text = Inr snapshot"
  "json_loads sample_library ld_text = Inr ld_value"
  "json_loads sample_library ''{name: }'' = Inl JSONDecodeError"
  by (simp_all add: sample_library_def sample_texts_differ)

lemma sample_tokens:
  "py_split ''10 Followers, 20 Following, 30 Posts'' =
     [''10'', ''Followers,'', ''20'', ''Following,'', ''30'', ''Posts'']"
  by (simp add: py_split_def is_space_def)

lemma sample_user_node: "user_node snapshot = Inr (JObject sample_user)"
  by (simp add: user_node_def snapshot_def)

lemma sample_find: "find_profile_script (more_data sample_page) = Some snapshot_script"
  by (simp add: sample_page_def sample_script_marked)

lemma sample_counts:
  "count_field lib [''10'', ''Followers,'', ''20'', ''Following,'', ''30'', ''Posts''] 0 ud e =
     Inr (JString ''10'')"
  "count_field lib [''10'', ''Followers,'', ''20'', ''Following,'', ''30'', ''Posts''] 2 ud e =
     Inr (JString ''20'')"
  "count_field lib [''10'', ''Followers,'', ''20'', ''Following,'', ''30'', ''Posts''] 4 ud e =
     Inr (JString ''30'')"
  by (simp_all add: count_field_def)

lemma sample_parse:
  "parse_profile build sample_library sample_page s =
     (case build (username s) ''2024-01-01T00:00:00'' ld_value
             [''10'', ''Followers,'', ''20'', ''Following,'', ''30'', ''Posts'']
             (JObject sample_user) of
        Inl e \<Rightarrow> (Inl e, s\<lparr>description := Some ld_value, profile_meta := Some snapshot\<rparr>)
      | Inr pd \<Rightarrow> (Inr pd, s\<lparr>description := Some ld_value, profile_meta := Some snapshot,
                                profile_data := pd\<rparr>))"
proof -
  have a: "general_data sample_page =
      [\<lparr>content_attr = Some ''10 Followers, 20 Following, 30 Posts'',
        tag_string = None, tag_text = []\<rparr>]"
    and b: "ld_json sample_page =
      Some \<lparr>content_attr = None, tag_string = Some ld_text, tag_text = ld_text\<rparr>"
    by (simp_all add: sample_page_def)
  have c: "now_isoformat sample_library t = ''2024-01-01T00:00:00''" for t
    by (simp add: sample_library_def)
  show ?thesis
    unfolding parse_profile_def a b sample_find
    by (simp add: sample_loads sample_script sample_tokens sample_user_node c Let_def
        split: sum.splits)
qed

lemma sample_name_and_url:
  "profile_name ld_value sample_user = Inr (JString [])"
  "profile_url ''alice'' ld_value = Inr (JString [])"
  "profile_name (JObject []) sample_user = Inr (JString ''Alice A'')"
  "profile_url ''alice'' (JObject []) = Inr (JString ''https://www.instagram.com/alice/'')"
  by (simp_all add: profile_name_def profile_url_def ld_value_def sample_user_def dict_get_def)

subsection \<open>General facts\<close>

lemma no_marker_no_script:
  "\<forall>t\<in>set tags. \<forall>str. tag_string t = Some str \<longrightarrow> \<not> contains ''window._sharedData'' str
   \<Longrightarrow> find_profile_script tags = None"
  by (induction tags) (auto split: option.splits)

lemma parse_profile_fails_keeps:
  "fst (parse_profile build lib page s) = Inl e \<Longrightarrow>
   profile_data (snd (parse_profile build lib page s)) = profile_data s"
  by (auto simp: parse_profile_def Let_def split: list.splits option.splits sum.splits)

lemma parse_no_script:
  assumes "general_data page \<noteq> []"
    and "find_profile_script (more_data page) = None"
  shows "\<exists>e. fst (parse_profile build lib page s) = Inl e"
  using assms
  by (auto simp: parse_profile_def Let_def split: list.splits option.splits sum.splits)

lemma parse_no_script_error:
  assumes "general_data page \<noteq> []"
    and "content_attr (hd (general_data page)) \<noteq> None"
    and "\<forall>block. ld_json page = Some block \<longrightarrow> (\<exists>d. json_loads lib (tag_text block) = Inr d)"
    and "find_profile_script (more_data page) = None"
  shows "fst (parse_profile build lib page s) = Inl (ValueError ''Profile data script not found'')"
  using assms
  by (auto simp: parse_profile_def Let_def split: list.splits option.splits sum.splits)

lemma parse_bad_ld:
  assumes "ld_json page = Some block" and "json_loads lib (tag_text block) = Inl e"
  shows "\<exists>e'. fst (parse_profile build lib page s) = Inl e'"
    and "snd (parse_profile build lib page s) = s"
    and "general_data page \<noteq> [] \<Longrightarrow> content_attr (hd (general_data page)) \<noteq> None \<Longrightarrow>
         fst (parse_profile build lib page s) = Inl e"
  using assms
  by (auto simp: parse_profile_def Let_def split: list.splits option.splits sum.splits)

lemma scrape_profile_fails:
  assumes "fst (make_request (profile_page_url s) s) = Some body"
    and "fst (parse_profile (build_profile_data lib) lib (html_parser lib body)
           (snd (make_request (profile_page_url s) s))) = Inl e"
  shows "fst (scrape_profile lib s) = None"
    and "profile_data (snd (scrape_profile lib s)) = profile_data s"
proof -
  obtain s1 where r: "make_request (profile_page_url s) s = (Some body, s1)"
    using assms(1) by (cases "make_request (profile_page_url s) s") simp
  obtain s2 where p: "parse_profile (build_profile_data lib) lib (html_parser lib body) s1 = (Inl e, s2)"
    using assms(2) r
    by (cases "parse_profile (build_profile_data lib) lib (html_parser lib body) s1") simp
  have k: "profile_data s2 = profile_data s1"
    using parse_profile_fails_keeps[of "build_profile_data lib" lib "html_parser lib body" s1 e] p
    by simp
  have m: "profile_data s1 = profile_data s"
    using retries_fields(5)[of "max_retries s" "profile_page_url s" 0 s] r
    by (simp add: make_request_def)
  have eq: "scrape_profile lib s = (None, s2)"
    by (simp add: scrape_profile_def r p)
  show "fst (scrape_profile lib s) = None" by (simp add: eq)
  show "profile_data (snd (scrape_profile lib s)) = profile_data s" by (simp add: eq k m)
qed

lemma fetch_profile_data_fails:
  assumes "fst (make_request_main (profile_page_url s) s) = Some body"
    and "fst (parse_profile (build_profile_data_main lib) lib (html_parser lib body)
           (snd (make_request_main (profile_page_url s) s))) = Inl e"
  shows "fst (fetch_profile_data lib s) = False"
    and "profile_data (snd (fetch_profile_data lib s)) = profile_data s"
proof -
  obtain s1 where r: "make_request_main (profile_page_url s) s = (Some body, s1)"
    using assms(1) by (cases "make_request_main (profile_page_url s) s") simp
  obtain s2 where p:
    "parse_profile (build_profile_data_main lib) lib (html_parser lib body) s1 = (Inl e, s2)"
    using assms(2) r
    by (cases "parse_profile (build_profile_data_main lib) lib (html_parser lib body) s1") simp
  have k: "profile_data s2 = profile_data s1"
    using parse_profile_fails_keeps[of "build_profile_data_main lib" lib "html_parser lib body" s1 e] p
    by simp
  have m: "profile_data s1 = profile_data s"
    using retries_fields(5)[of 3 "profile_page_url s" 0 s] r
    by (simp add: make_request_main_def)
  have eq: "fetch_profile_data lib s = (False, s2)"
    by (simp add: fetch_profile_data_def r p)
  show "fst (fetch_profile_data lib s) = False" by (simp add: eq)
  show "profile_data (snd (fetch_profile_data lib s)) = profile_data s" by (simp add: eq k m)
qed

lemma build_fields:
  assumes "build_profile_data lib uname stamp desc text (JObject ud) = Inr pd"
  shows "map_option Inr (map_of pd ''Profile Name'') = Some (profile_name desc ud)"
    and "map_option Inr (map_of pd ''URL'') = Some (profile_url uname desc)"
    and "map_option Inr (map_of pd ''Followers'') =
           Some (count_field lib text 0 ud ''edge_followed_by'')"
    and "map_option Inr (map_of pd ''Following'') =
           Some (count_field lib text 2 ud ''edge_follow'')"
    and "map_option Inr (map_of pd ''Posts'') =
           Some (count_field lib text 4 ud ''edge_owner_to_timeline_media'')"
  using assms by (auto simp: bind_Inr_iff)

lemma build_main_fields:
  assumes "build_profile_data_main lib uname stamp desc text (JObject ud) = Inr pd"
  shows "map_option Inr (map_of pd ''profile_name'') = Some (profile_name desc ud)"
    and "map_option Inr (map_of pd ''url'') = Some (profile_url uname desc)"
    and "map_option Inr (map_of pd ''followers'') =
           Some (count_field lib text 0 ud ''edge_followed_by'')"
    and "map_option Inr (map_of pd ''following'') =
           Some (count_field lib text 2 ud ''edge_follow'')"
    and "map_option Inr (map_of pd ''posts'') =
           Some (count_field lib text 4 ud ''edge_owner_to_timeline_media'')"
  using assms by (auto simp: bind_Inr_iff)

lemma field_value: "map_option Inr x = Some (Inr v) \<Longrightarrow> x = Some v"
  by (cases x) simp_all

subsection \<open>Display name and canonical URL\<close>

text \<open>
  C1, as stated, fails. The sample page has a JSON-LD block without \<^verbatim>\<open>name\<close> and without
  \<^verbatim>\<open>mainEntityofPage\<close>, and a snapshot user whose \<^verbatim>\<open>full_name\<close> is "Alice A": the
  record's display name and URL are both the empty string, not the snapshot's full name
  and the constructed profile URL.
\<close>

theorem display_name_counterexample:
  "record_field ''Profile Name''
     (fst (parse_profile (build_profile_data sample_library) sample_library sample_page flaky_state))
     = Some (JString []) \<and>
   record_field ''URL''
     (fst (parse_profile (build_profile_data sample_library) sample_library sample_page flaky_state))
     = Some (JString []) \<and>
   map_of sample_user ''full_name'' = Some (JString ''Alice A'') \<and>
   description
     (snd (parse_profile (build_profile_data sample_library) sample_library sample_page flaky_state))
     = Some (JObject [(''@type'', JString ''Person'')])"
proof -
  have u: "username flaky_state = ''alice''" by (simp add: flaky_state_def)
  have 1: "record_field ''Profile Name''
     (fst (parse_profile (build_profile_data sample_library) sample_library sample_page flaky_state))
     = Some (JString [])"
    and 2: "record_field ''URL''
     (fst (parse_profile (build_profile_data sample_library) sample_library sample_page flaky_state))
     = Some (JString [])"
    and 3: "description
     (snd (parse_profile (build_profile_data sample_library) sample_library sample_page flaky_state))
     = Some ld_value"
    by (simp_all add: sample_parse u sample_name_and_url sample_counts record_field_def)
  have 4: "map_of sample_user ''full_name'' = Some (JString ''Alice A'')"
    by (simp add: sample_user_def)
  show ?thesis using 1 2 3 4 by (simp add: ld_value_def)
qed

text \<open>
  C1, amended. The source is chosen by whether the parsed JSON-LD mapping \<open>ld\<close> is empty,
  not field by field. For a non-empty mapping the display name is its \<^verbatim>\<open>name\<close>, or the
  empty string when it has none, and the URL is \<^verbatim>\<open>mainEntityofPage.@id\<close> (the key as the
  code spells it), or the empty string when either key is missing. Only for an absent or
  empty JSON-LD mapping are the snapshot's \<^verbatim>\<open>full_name\<close> (default: empty string) and the
  URL built from the username used. Both files store these values in the record.
\<close>

theorem display_name_and_url_sources:
  "profile_name (JObject ld) ud =
     Inr (if ld \<noteq> [] then dict_get ld ''name'' (JString [])
          else dict_get ud ''full_name'' (JString [])) \<and>
   profile_url uname (JObject ld) =
     (if ld \<noteq> [] then py_get (dict_get ld ''mainEntityofPage'' (JObject [])) ''@id'' (JString [])
      else Inr (JString (''https://www.instagram.com/'' @ uname @ ''/''))) \<and>
   (build_profile_data lib uname stamp (JObject ld) text (JObject ud) = Inr pd \<longrightarrow>
      map_option Inr (map_of pd ''Profile Name'') = Some (profile_name (JObject ld) ud) \<and>
      map_option Inr (map_of pd ''URL'') = Some (profile_url uname (JObject ld))) \<and>
   (build_profile_data_main lib uname stamp (JObject ld) text (JObject ud) = Inr pd' \<longrightarrow>
      map_option Inr (map_of pd' ''profile_name'') = Some (profile_name (JObject ld) ud) \<and>
      map_option Inr (map_of pd' ''url'') = Some (profile_url uname (JObject ld)))"
proof (intro conjI impI)
  show "profile_name (JObject ld) ud =
     Inr (if ld \<noteq> [] then dict_get ld ''name'' (JString [])
          else dict_get ud ''full_name'' (JString []))"
    by (simp add: profile_name_def dict_get_def)
  show "profile_url uname (JObject ld) =
     (if ld \<noteq> [] then py_get (dict_get ld ''mainEntityofPage'' (JObject [])) ''@id'' (JString [])
      else Inr (JString (''https://www.instagram.com/'' @ uname @ ''/'')))"
    by (simp add: profile_url_def dict_get_def)
next
  assume b: "build_profile_data lib uname stamp (JObject ld) text (JObject ud) = Inr pd"
  show "map_option Inr (map_of pd ''Profile Name'') = Some (profile_name (JObject ld) ud)"
    using build_fields(1)[OF b] .
  show "map_option Inr (map_of pd ''URL'') = Some (profile_url uname (JObject ld))"
    using build_fields(2)[OF b] .
next
  assume b: "build_profile_data_main lib uname stamp (JObject ld) text (JObject ud) = Inr pd'"
  show "map_option Inr (map_of pd' ''profile_name'') = Some (profile_name (JObject ld) ud)"
    using build_main_fields(1)[OF b] .
  show "map_option Inr (map_of pd' ''url'') = Some (profile_url uname (JObject ld))"
    using build_main_fields(2)[OF b] .
qed

theorem display_name_and_url_sources_witness:
  "\<exists>pd pd'.
     build_profile_data sample_library ''alice'' ''2024-01-01T00:00:00''
       (JObject [(''name'', JString ''Alice in LD'')]) [''10''] (JObject sample_user) = Inr pd \<and>
     build_profile_data_main sample_library ''alice'' ''2024-01-01T00:00:00''
       (JObject [(''name'', JString ''Alice in LD'')]) [''10''] (JObject sample_user) = Inr pd' \<and>
     map_of pd ''Profile Name'' = Some (JString ''Alice in LD'') \<and>
     map_of pd ''URL'' = Some (JString []) \<and>
     map_of pd' ''profile_name'' = Some (JString ''Alice in LD'') \<and>
     map_of pd' ''url'' = Some (JString [])"
proof -
  let ?ld = "[(''name'', JString ''Alice in LD'')]"
  have n: "profile_name (JObject ?ld) sample_user = Inr (JString ''Alice in LD'')"
    and u: "profile_url ''alice'' (JObject ?ld) = Inr (JString [])"
    by (simp_all add: profile_name_def profile_url_def dict_get_def)
  obtain v2 v4 where
    c: "count_field sample_library [''10''] 0 sample_user ''edge_followed_by'' = Inr (JString ''10'')"
      "count_field sample_library [''10''] 2 sample_user ''edge_follow'' = Inr v2"
      "count_field sample_library [''10''] 4 sample_user ''edge_owner_to_timeline_media'' = Inr v4"
    by (simp add: count_field_def snapshot_count_def dict_get_def sample_user_def)
  obtain pd where pd: "build_profile_data sample_library ''alice'' ''2024-01-01T00:00:00''
       (JObject ?ld) [''10''] (JObject sample_user) = Inr pd"
    by (simp add: n u c)
  obtain pd' where pd': "build_profile_data_main sample_library ''alice'' ''2024-01-01T00:00:00''
       (JObject ?ld) [''10''] (JObject sample_user) = Inr pd'"
    by (simp add: n u c)
  note t = display_name_and_url_sources
    [of ?ld sample_user "''alice''" sample_library "''2024-01-01T00:00:00''" "[''10'']" pd pd']
  note a = t[THEN conjunct2, THEN conjunct2, THEN conjunct1, rule_format, OF pd]
  note b = t[THEN conjunct2, THEN conjunct2, THEN conjunct2, rule_format, OF pd']
  have 1: "map_option Inr (map_of pd ''Profile Name'') = Some (Inr (JString ''Alice in LD'') :: error + json)"
    using a[THEN conjunct1] by (simp only: n)
  have 2: "map_option Inr (map_of pd ''URL'') = Some (Inr (JString []) :: error + json)"
    using a[THEN conjunct2] by (simp only: u)
  have 3: "map_option Inr (map_of pd' ''profile_name'') = Some (Inr (JString ''Alice in LD'') :: error + json)"
    using b[THEN conjunct1] by (simp only: n)
  have 4: "map_option Inr (map_of pd' ''url'') = Some (Inr (JString []) :: error + json)"
    using b[THEN conjunct2] by (simp only: u)
  show ?thesis
    using pd pd' field_value[OF 1] field_value[OF 2] field_value[OF 3] field_value[OF 4]
    by blast
qed

subsection \<open>A JSON-LD block that is not JSON\<close>

text \<open>
  C2, as stated, fails. On the sample page with a JSON-LD block whose text is not JSON,
  the \<^verbatim>\<open>try\<close> block ends in the JSON decoding error and the profile data stays empty; the
  same page without the block yields a record.
\<close>

theorem invalid_json_ld_counterexample:
  "fst (parse_profile (build_profile_data sample_library) sample_library broken_ld_page flaky_state)
     = Inl JSONDecodeError \<and>
   profile_data
     (snd (parse_profile (build_profile_data sample_library) sample_library broken_ld_page flaky_state))
     = [] \<and>
   record_field ''Username''
     (fst (parse_profile (build_profile_data sample_library) sample_library
            (broken_ld_page\<lparr>ld_json := None\<rparr>) flaky_state))
     = Some (JString ''alice'')"
proof -
  have a: "general_data broken_ld_page =
      [\<lparr>content_attr = Some ''10 Followers, 20 Following, 30 Posts'',
        tag_string = None, tag_text = []\<rparr>]"
    and b: "ld_json broken_ld_page =
      Some \<lparr>content_attr = None, tag_string = Some ''{name: }'', tag_text = ''{name: }''\<rparr>"
    and c: "more_data (broken_ld_page\<lparr>ld_json := None\<rparr>) = more_data sample_page"
    by (simp_all add: broken_ld_page_def sample_page_def)
  have n: "now_isoformat sample_library t = ''2024-01-01T00:00:00''" for t
    by (simp add: sample_library_def)
  have 1: "parse_profile (build_profile_data sample_library) sample_library broken_ld_page flaky_state
      = (Inl JSONDecodeError, flaky_state)"
    unfolding parse_profile_def a b by (simp add: sample_loads)
  have 2: "record_field ''Username''
     (fst (parse_profile (build_profile_data sample_library) sample_library
            (broken_ld_page\<lparr>ld_json := None\<rparr>) flaky_state)) = Some (JString ''alice'')"
  proof -
    have u: "username flaky_state = ''alice''" by (simp add: flaky_state_def)
    have g: "general_data (broken_ld_page\<lparr>ld_json := None\<rparr>) = general_data broken_ld_page"
      and l: "ld_json (broken_ld_page\<lparr>ld_json := None\<rparr>) = None"
      by simp_all
    have d: "dict_get sample_user ''username'' JNull = JString ''alice''"
      by (simp add: sample_user_def dict_get_def)
    show ?thesis
      unfolding parse_profile_def c g l a sample_find
      by (simp add: sample_loads sample_script sample_tokens sample_user_node sample_counts
          sample_name_and_url n u d record_field_def)
  qed
  show ?thesis using 1 2 by (simp add: flaky_state_def)
qed

text \<open>
  C2, amended. A JSON-LD block that is present but is not valid JSON is fatal: the
  exception of \<^verbatim>\<open>json.loads\<close> is caught by the handler around the whole parse, nothing else
  of the page is parsed, the state is left as it was and no record is produced;
  \<^verbatim>\<open>scrape_profile\<close> returns \<^verbatim>\<open>None\<close> and \<^verbatim>\<open>_fetch_profile_data\<close> returns \<^verbatim>\<open>False\<close>. When the
  meta tag and its content are there, the exception is the decoding error itself.
\<close>

theorem invalid_json_ld_is_fatal:
  assumes "ld_json page = Some block" and "json_loads lib (tag_text block) = Inl e"
  shows "(\<exists>e'. fst (parse_profile build lib page s) = Inl e') \<and>
         snd (parse_profile build lib page s) = s \<and>
         (general_data page \<noteq> [] \<and> content_attr (hd (general_data page)) \<noteq> None \<longrightarrow>
            fst (parse_profile build lib page s) = Inl e) \<and>
         (fst (make_request (profile_page_url s) s) = Some body \<and> html_parser lib body = page \<longrightarrow>
            fst (scrape_profile lib s) = None \<and>
            profile_data (snd (scrape_profile lib s)) = profile_data s) \<and>
         (fst (make_request_main (profile_page_url s) s) = Some body' \<and>
          html_parser lib body' = page \<longrightarrow>
            fst (fetch_profile_data lib s) = False \<and>
            profile_data (snd (fetch_profile_data lib s)) = profile_data s)"
proof (intro conjI impI)
  show "\<exists>e'. fst (parse_profile build lib page s) = Inl e'"
    using parse_bad_ld(1)[OF assms] .
  show "snd (parse_profile build lib page s) = s"
    using parse_bad_ld(2)[OF assms] .
next
  assume "general_data page \<noteq> [] \<and> content_attr (hd (general_data page)) \<noteq> None"
  then show "fst (parse_profile build lib page s) = Inl e"
    using parse_bad_ld(3)[OF assms] by blast
next
  assume a: "fst (make_request (profile_page_url s) s) = Some body \<and> html_parser lib body = page"
  obtain e' where "fst (parse_profile (build_profile_data lib) lib (html_parser lib body)
      (snd (make_request (profile_page_url s) s))) = Inl e'"
    using parse_bad_ld(1)[OF assms] a by blast
  from scrape_profile_fails[OF _ this] a
  show "fst (scrape_profile lib s) = None"
    and "profile_data (snd (scrape_profile lib s)) = profile_data s" by simp_all
next
  assume a: "fst (make_request_main (profile_page_url s) s) = Some body' \<and>
      html_parser lib body' = page"
  obtain e' where "fst (parse_profile (build_profile_data_main lib) lib (html_parser lib body')
      (snd (make_request_main (profile_page_url s) s))) = Inl e'"
    using parse_bad_ld(1)[OF assms] a by blast
  from fetch_profile_data_fails[OF _ this] a
  show "fst (fetch_profile_data lib s) = False"
    and "profile_data (snd (fetch_profile_data lib s)) = profile_data s" by simp_all
qed

lemma flaky_fetch:
  "fst (make_request url flaky_state) = Some ''body''"
  "fst (make_request_main url flaky_state) = Some ''body''"
proof -
  have a: "\<forall>i<2. snd (network flaky_state (sent flaky_state + i)) = None"
    and b: "snd (network flaky_state (sent flaky_state + 2)) = Some ''body''"
    and m: "max_retries flaky_state = 3"
    by (simp_all add: flaky_state_def)
  have c: "int 0 + int 2 \<le> (3::int)" by simp
  from retries_succeed[OF a b c]
  show "fst (make_request url flaky_state) = Some ''body''"
    and "fst (make_request_main url flaky_state) = Some ''body''"
    by (simp_all add: make_request_def make_request_main_def m)
qed

theorem invalid_json_ld_is_fatal_witness:
  "json_loads sample_library ''{name: }'' = Inl JSONDecodeError \<and>
   fst (parse_profile (build_profile_data sample_library) sample_library broken_ld_page flaky_state)
     = Inl JSONDecodeError \<and>
   snd (parse_profile (build_profile_data sample_library) sample_library broken_ld_page flaky_state)
     = flaky_state \<and>
   fst (scrape_profile (sample_library\<lparr>html_parser := \<lambda>body. broken_ld_page\<rparr>) flaky_state) = None \<and>
   fst (fetch_profile_data (sample_library\<lparr>html_parser := \<lambda>body. broken_ld_page\<rparr>) flaky_state)
     = False"
proof -
  let ?block = "\<lparr>content_attr = None, tag_string = Some ''{name: }'', tag_text = ''{name: }''\<rparr>"
  let ?lib = "sample_library\<lparr>html_parser := \<lambda>body. broken_ld_page\<rparr>"
  have h1: "ld_json broken_ld_page = Some ?block"
    by (simp add: broken_ld_page_def)
  have h2: "json_loads sample_library (tag_text ?block) = Inl JSONDecodeError"
    and h2': "json_loads ?lib (tag_text ?block) = Inl JSONDecodeError"
    using sample_loads(3) by simp_all
  have g: "general_data broken_ld_page \<noteq> [] \<and> content_attr (hd (general_data broken_ld_page)) \<noteq> None"
    by (simp add: broken_ld_page_def sample_page_def)
  have p: "html_parser ?lib ''body'' = broken_ld_page" by simp
  note t = invalid_json_ld_is_fatal[OF h1 h2,
      where build = "build_profile_data sample_library" and s = flaky_state]
  note t' = invalid_json_ld_is_fatal[OF h1 h2',
      where s = flaky_state and body = "''body''" and body' = "''body''"]
  have 1: "fst (parse_profile (build_profile_data sample_library) sample_library broken_ld_page
      flaky_state) = Inl JSONDecodeError"
    using t g by blast
  have 2: "snd (parse_profile (build_profile_data sample_library) sample_library broken_ld_page
      flaky_state) = flaky_state"
    using t by blast
  have 3: "fst (scrape_profile ?lib flaky_state) = None"
    using t' flaky_fetch(1)[of "profile_page_url flaky_state"] p by blast
  have 4: "fst (fetch_profile_data ?lib flaky_state) = False"
    using t' flaky_fetch(2)[of "profile_page_url flaky_state"] p by blast
  show ?thesis using sample_loads(3) 1 2 3 4 by blast
qed

subsection \<open>A page without the snapshot script\<close>

text \<open>
  C8, as stated, fails on the identity of the error. On a page that has the meta tag and no
  snapshot script, but whose JSON-LD block is not JSON, the exception that ends the parse
  is the JSON decoding error raised one statement earlier, not the \<^verbatim>\<open>ValueError\<close> for the
  missing script.
\<close>

theorem missing_snapshot_counterexample:
  "general_data no_snapshot_broken_ld_page \<noteq> [] \<and>
   find_profile_script (more_data no_snapshot_broken_ld_page) = None \<and>
   fst (parse_profile (build_profile_data sample_library) sample_library
          no_snapshot_broken_ld_page flaky_state) = Inl JSONDecodeError \<and>
   fst (parse_profile (build_profile_data sample_library) sample_library
          no_snapshot_broken_ld_page flaky_state)
     \<noteq> Inl (ValueError ''Profile data script not found'')"
proof -
  have a: "general_data no_snapshot_broken_ld_page =
      [\<lparr>content_attr = Some ''10 Followers, 20 Following, 30 Posts'',
        tag_string = None, tag_text = []\<rparr>]"
    and b: "ld_json no_snapshot_broken_ld_page =
      Some \<lparr>content_attr = None, tag_string = Some ''{name: }'', tag_text = ''{name: }''\<rparr>"
    and c: "more_data no_snapshot_broken_ld_page =
      [\<lparr>content_attr = None, tag_string = Some ''var x = 1;'', tag_text = ''var x = 1;''\<rparr>]"
    by (simp_all add: no_snapshot_broken_ld_page_def no_snapshot_page_def broken_ld_page_def
        sample_page_def)
  have 1: "find_profile_script (more_data no_snapshot_broken_ld_page) = None"
    unfolding c by simp
  have 2: "fst (parse_profile (build_profile_data sample_library) sample_library
          no_snapshot_broken_ld_page flaky_state) = Inl JSONDecodeError"
    unfolding parse_profile_def a b by (simp add: sample_loads)
  show ?thesis using a 1 2 by simp
qed

text \<open>
  C8, amended. For every page that has the meta tag but no inline script containing the
  marker, the parse fails and no record is produced: the profile data stays as it was,
  \<^verbatim>\<open>scrape_profile\<close> returns \<^verbatim>\<open>None\<close> and \<^verbatim>\<open>_fetch_profile_data\<close> returns \<^verbatim>\<open>False\<close>. The
  failure is the error for the missing script provided the two statements before the
  search do not raise: the meta tag has a \<^verbatim>\<open>content\<close> attribute and the JSON-LD block, if
  there is one, is valid JSON.
\<close>

theorem missing_snapshot_fails:
  assumes "general_data page \<noteq> []"
    and "\<forall>t\<in>set (more_data page). \<forall>str. tag_string t = Some str \<longrightarrow>
           \<not> contains ''window._sharedData'' str"
  shows "(\<exists>e. fst (parse_profile build lib page s) = Inl e) \<and>
         profile_data (snd (parse_profile build lib page s)) = profile_data s \<and>
         (content_attr (hd (general_data page)) \<noteq> None \<and>
          (\<forall>block. ld_json page = Some block \<longrightarrow> (\<exists>d. json_loads lib (tag_text block) = Inr d)) \<longrightarrow>
            fst (parse_profile build lib page s) =
              Inl (ValueError ''Profile data script not found'')) \<and>
         (fst (make_request (profile_page_url s) s) = Some body \<and> html_parser lib body = page \<longrightarrow>
            fst (scrape_profile lib s) = None \<and>
            profile_data (snd (scrape_profile lib s)) = profile_data s) \<and>
         (fst (make_request_main (profile_page_url s) s) = Some body' \<and>
          html_parser lib body' = page \<longrightarrow>
            fst (fetch_profile_data lib s) = False \<and>
            profile_data (snd (fetch_profile_data lib s)) = profile_data s)"
proof -
  have none: "find_profile_script (more_data page) = None"
    using no_marker_no_script[OF assms(2)] .
  have fails: "\<exists>e. fst (parse_profile b lib page t) = Inl e" for b t
    using parse_no_script[OF assms(1) none] .
  show ?thesis
  proof (intro conjI impI)
    show "\<exists>e. fst (parse_profile build lib page s) = Inl e" using fails .
    then show "profile_data (snd (parse_profile build lib page s)) = profile_data s"
      using parse_profile_fails_keeps by blast
  next
    assume "content_attr (hd (general_data page)) \<noteq> None \<and>
      (\<forall>block. ld_json page = Some block \<longrightarrow> (\<exists>d. json_loads lib (tag_text block) = Inr d))"
    then show "fst (parse_profile build lib page s) =
        Inl (ValueError ''Profile data script not found'')"
      using parse_no_script_error[OF assms(1) _ _ none] by blast
  next
    assume a: "fst (make_request (profile_page_url s) s) = Some body \<and> html_parser lib body = page"
    obtain e where "fst (parse_profile (build_profile_data lib) lib (html_parser lib body)
        (snd (make_request (profile_page_url s) s))) = Inl e"
      using fails a by blast
    from scrape_profile_fails[OF _ this] a
    show "fst (scrape_profile lib s) = None"
      and "profile_data (snd (scrape_profile lib s)) = profile_data s" by simp_all
  next
    assume a: "fst (make_request_main (profile_page_url s) s) = Some body' \<and>
        html_parser lib body' = page"
    obtain e where "fst (parse_profile (build_profile_data_main lib) lib (html_parser lib body')
        (snd (make_request_main (profile_page_url s) s))) = Inl e"
      using fails a by blast
    from fetch_profile_data_fails[OF _ this] a
    show "fst (fetch_profile_data lib s) = False"
      and "profile_data (snd (fetch_profile_data lib s)) = profile_data s" by simp_all
  qed
qed

theorem missing_snapshot_fails_witness:
  "general_data no_snapshot_page \<noteq> [] \<and>
   fst (parse_profile (build_profile_data sample_library) sample_library no_snapshot_page flaky_state)
     = Inl (ValueError ''Profile data script not found'') \<and>
   profile_data
     (snd (parse_profile (build_profile_data sample_library) sample_library no_snapshot_page
            flaky_state)) = [] \<and>
   fst (scrape_profile (sample_library\<lparr>html_parser := \<lambda>body. no_snapshot_page\<rparr>) flaky_state) = None \<and>
   fst (fetch_profile_data (sample_library\<lparr>html_parser := \<lambda>body. no_snapshot_page\<rparr>) flaky_state)
     = False"
proof -
  let ?lib = "sample_library\<lparr>html_parser := \<lambda>body. no_snapshot_page\<rparr>"
  have a: "general_data no_snapshot_page =
      [\<lparr>content_attr = Some ''10 Followers, 20 Following, 30 Posts'',
        tag_string = None, tag_text = []\<rparr>]"
    and b: "ld_json no_snapshot_page =
      Some \<lparr>content_attr = None, tag_string = Some ld_text, tag_text = ld_text\<rparr>"
    and c: "more_data no_snapshot_page =
      [\<lparr>content_attr = None, tag_string = Some ''var x = 1;'', tag_text = ''var x = 1;''\<rparr>]"
    by (simp_all add: no_snapshot_page_def sample_page_def)
  have h1: "general_data no_snapshot_page \<noteq> []" unfolding a by simp
  have h2: "\<forall>t\<in>set (more_data no_snapshot_page). \<forall>str. tag_string t = Some str \<longrightarrow>
           \<not> contains ''window._sharedData'' str"
    unfolding c by simp
  have h3: "content_attr (hd (general_data no_snapshot_page)) \<noteq> None \<and>
      (\<forall>block. ld_json no_snapshot_page = Some block \<longrightarrow>
         (\<exists>d. json_loads sample_library (tag_text block) = Inr d))"
    unfolding a b by (simp add: sample_loads)
  have p: "html_parser ?lib ''body'' = no_snapshot_page" by simp
  have e: "profile_data flaky_state = []" by (simp add: flaky_state_def)
  note t = missing_snapshot_fails[OF h1 h2,
      where build = "build_profile_data sample_library" and lib = sample_library
        and s = flaky_state]
  note t' = missing_snapshot_fails[OF h1 h2,
      where lib = ?lib and s = flaky_state and body = "''body''" and body' = "''body''"]
  have 1: "fst (parse_profile (build_profile_data sample_library) sample_library no_snapshot_page
      flaky_state) = Inl (ValueError ''Profile data script not found'')"
    using t h3 by blast
  have 2: "profile_data (snd (parse_profile (build_profile_data sample_library) sample_library
      no_snapshot_page flaky_state)) = []"
    using t e by metis
  have 3: "fst (scrape_profile ?lib flaky_state) = None"
    using t' flaky_fetch(1)[of "profile_page_url flaky_state"] p by blast
  have 4: "fst (fetch_profile_data ?lib flaky_state) = False"
    using t' flaky_fetch(2)[of "profile_page_url flaky_state"] p by blast
  show ?thesis using h1 1 2 3 4 by blast
qed

subsection \<open>Counts from the meta tokens\<close>

lemma snapshot_count_of_dict:
  "map_of ud edge = Some (JObject cnt) \<Longrightarrow> map_of cnt ''count'' = Some c \<Longrightarrow>
   snapshot_count lib ud edge = Inr (JString (py_str lib c))"
  by (simp add: snapshot_count_def dict_get_def)

lemma build_total:
  assumes "profile_name desc ud = Inr name" and "profile_url uname desc = Inr url"
    and "4 < length text"
  shows "\<exists>pd. build_profile_data lib uname stamp desc text (JObject ud) = Inr pd"
    and "\<exists>pd. build_profile_data_main lib uname stamp desc text (JObject ud) = Inr pd"
proof -
  have l: "0 < length text" "2 < length text" using assms(3) by linarith+
  have c: "count_field lib text 0 ud e = Inr (JString (text ! 0))"
    "count_field lib text 2 ud e = Inr (JString (text ! 2))"
    "count_field lib text 4 ud e = Inr (JString (text ! 4))" for e
    using l assms(3) by (simp_all add: count_field_def)
  show "\<exists>pd. build_profile_data lib uname stamp desc text (JObject ud) = Inr pd"
    by (simp add: assms(1,2) c)
  show "\<exists>pd. build_profile_data_main lib uname stamp desc text (JObject ud) = Inr pd"
    by (simp add: assms(1,2) c)
qed

text \<open>
  C5. With the six tokens \<open>[n1, "Followers,", n2, "Following,", n3, "Posts"]\<close> the three
  count fields are \<open>n1\<close>, \<open>n2\<close> and \<open>n3\<close>, whatever the snapshot user \<open>ud\<close> holds: the
  field expressions do not look at it, and a record is produced whenever the display name
  and the URL are. With fewer tokens, a field whose index is missing is the snapshot's
  value for it: \<^verbatim>\<open>str\<close> of the \<^verbatim>\<open>count\<close> of the field's edge.
\<close>

theorem counts_from_meta_tokens:
  "count_field lib [n1, ''Followers,'', n2, ''Following,'', n3, ''Posts''] 0 ud e0 = Inr (JString n1) \<and>
   count_field lib [n1, ''Followers,'', n2, ''Following,'', n3, ''Posts''] 2 ud e2 = Inr (JString n2) \<and>
   count_field lib [n1, ''Followers,'', n2, ''Following,'', n3, ''Posts''] 4 ud e4 = Inr (JString n3) \<and>
   (profile_name desc ud = Inr name \<and> profile_url uname desc = Inr url \<longrightarrow>
      (\<exists>pd. build_profile_data lib uname stamp desc
               [n1, ''Followers,'', n2, ''Following,'', n3, ''Posts''] (JObject ud) = Inr pd) \<and>
      (\<exists>pd. build_profile_data_main lib uname stamp desc
               [n1, ''Followers,'', n2, ''Following,'', n3, ''Posts''] (JObject ud) = Inr pd)) \<and>
   (build_profile_data lib uname stamp desc
      [n1, ''Followers,'', n2, ''Following,'', n3, ''Posts''] (JObject ud) = Inr pd \<longrightarrow>
      map_of pd ''Followers'' = Some (JString n1) \<and>
      map_of pd ''Following'' = Some (JString n2) \<and>
      map_of pd ''Posts'' = Some (JString n3)) \<and>
   (build_profile_data_main lib uname stamp desc
      [n1, ''Followers,'', n2, ''Following,'', n3, ''Posts''] (JObject ud) = Inr pd' \<longrightarrow>
      map_of pd' ''followers'' = Some (JString n1) \<and>
      map_of pd' ''following'' = Some (JString n2) \<and>
      map_of pd' ''posts'' = Some (JString n3)) \<and>
   (length toks \<le> i \<longrightarrow> count_field lib toks i ud edge = snapshot_count lib ud edge) \<and>
   (map_of ud edge = Some (JObject cnt) \<and> map_of cnt ''count'' = Some c \<longrightarrow>
      snapshot_count lib ud edge = Inr (JString (py_str lib c))) \<and>
   (build_profile_data lib uname stamp desc toks (JObject ud) = Inr qd \<longrightarrow>
      (length toks \<le> 0 \<longrightarrow>
         map_option Inr (map_of qd ''Followers'') = Some (snapshot_count lib ud ''edge_followed_by'')) \<and>
      (length toks \<le> 2 \<longrightarrow>
         map_option Inr (map_of qd ''Following'') = Some (snapshot_count lib ud ''edge_follow'')) \<and>
      (length toks \<le> 4 \<longrightarrow>
         map_option Inr (map_of qd ''Posts'') =
           Some (snapshot_count lib ud ''edge_owner_to_timeline_media''))) \<and>
   (build_profile_data_main lib uname stamp desc toks (JObject ud) = Inr qd' \<longrightarrow>
      (length toks \<le> 0 \<longrightarrow>
         map_option Inr (map_of qd' ''followers'') = Some (snapshot_count lib ud ''edge_followed_by'')) \<and>
      (length toks \<le> 2 \<longrightarrow>
         map_option Inr (map_of qd' ''following'') = Some (snapshot_count lib ud ''edge_follow'')) \<and>
      (length toks \<le> 4 \<longrightarrow>
         map_option Inr (map_of qd' ''posts'') =
           Some (snapshot_count lib ud ''edge_owner_to_timeline_media'')))"
proof -
  let ?t = "[n1, ''Followers,'', n2, ''Following,'', n3, ''Posts'']"
  have c: "count_field lib ?t 0 ud e = Inr (JString n1)"
    "count_field lib ?t 2 ud e = Inr (JString n2)"
    "count_field lib ?t 4 ud e = Inr (JString n3)" for e
    by (simp_all add: count_field_def)
  have short: "length toks \<le> j \<Longrightarrow> count_field lib toks j ud e = snapshot_count lib ud e" for j e
    by (simp add: count_field_def)
  have 1: "profile_name desc ud = Inr name \<and> profile_url uname desc = Inr url \<longrightarrow>
      (\<exists>pd. build_profile_data lib uname stamp desc ?t (JObject ud) = Inr pd) \<and>
      (\<exists>pd. build_profile_data_main lib uname stamp desc ?t (JObject ud) = Inr pd)"
    using build_total[of desc ud name uname url ?t lib stamp] by simp
  have 2: "build_profile_data lib uname stamp desc ?t (JObject ud) = Inr pd \<longrightarrow>
      map_of pd ''Followers'' = Some (JString n1) \<and>
      map_of pd ''Following'' = Some (JString n2) \<and>
      map_of pd ''Posts'' = Some (JString n3)"
  proof
    assume b: "build_profile_data lib uname stamp desc ?t (JObject ud) = Inr pd"
    show "map_of pd ''Followers'' = Some (JString n1) \<and>
      map_of pd ''Following'' = Some (JString n2) \<and> map_of pd ''Posts'' = Some (JString n3)"
      using build_fields(3)[OF b] build_fields(4)[OF b] build_fields(5)[OF b]
      by (simp only: c field_value simp_thms)
  qed
  have 3: "build_profile_data_main lib uname stamp desc ?t (JObject ud) = Inr pd' \<longrightarrow>
      map_of pd' ''followers'' = Some (JString n1) \<and>
      map_of pd' ''following'' = Some (JString n2) \<and>
      map_of pd' ''posts'' = Some (JString n3)"
  proof
    assume b: "build_profile_data_main lib uname stamp desc ?t (JObject ud) = Inr pd'"
    show "map_of pd' ''followers'' = Some (JString n1) \<and>
      map_of pd' ''following'' = Some (JString n2) \<and> map_of pd' ''posts'' = Some (JString n3)"
      using build_main_fields(3)[OF b] build_main_fields(4)[OF b] build_main_fields(5)[OF b]
      by (simp only: c field_value simp_thms)
  qed
  have 4: "map_of ud edge = Some (JObject cnt) \<and> map_of cnt ''count'' = Some c \<longrightarrow>
      snapshot_count lib ud edge = Inr (JString (py_str lib c))"
    using snapshot_count_of_dict by blast
  have 5: "build_profile_data lib uname stamp desc toks (JObject ud) = Inr qd \<longrightarrow>
      (length toks \<le> 0 \<longrightarrow>
         map_option Inr (map_of qd ''Followers'') = Some (snapshot_count lib ud ''edge_followed_by'')) \<and>
      (length toks \<le> 2 \<longrightarrow>
         map_option Inr (map_of qd ''Following'') = Some (snapshot_count lib ud ''edge_follow'')) \<and>
      (length toks \<le> 4 \<longrightarrow>
         map_option Inr (map_of qd ''Posts'') =
           Some (snapshot_count lib ud ''edge_owner_to_timeline_media''))"
  proof
    assume b: "build_profile_data lib uname stamp desc toks (JObject ud) = Inr qd"
    show "(length toks \<le> 0 \<longrightarrow>
         map_option Inr (map_of qd ''Followers'') = Some (snapshot_count lib ud ''edge_followed_by'')) \<and>
      (length toks \<le> 2 \<longrightarrow>
         map_option Inr (map_of qd ''Following'') = Some (snapshot_count lib ud ''edge_follow'')) \<and>
      (length toks \<le> 4 \<longrightarrow>
         map_option Inr (map_of qd ''Posts'') =
           Some (snapshot_count lib ud ''edge_owner_to_timeline_media''))"
      using build_fields(3)[OF b] build_fields(4)[OF b] build_fields(5)[OF b] short
      by metis
  qed
  have 6: "build_profile_data_main lib uname stamp desc toks (JObject ud) = Inr qd' \<longrightarrow>
      (length toks \<le> 0 \<longrightarrow>
         map_option Inr (map_of qd' ''followers'') = Some (snapshot_count lib ud ''edge_followed_by'')) \<and>
      (length toks \<le> 2 \<longrightarrow>
         map_option Inr (map_of qd' ''following'') = Some (snapshot_count lib ud ''edge_follow'')) \<and>
      (length toks \<le> 4 \<longrightarrow>
         map_option Inr (map_of qd' ''posts'') =
           Some (snapshot_count lib ud ''edge_owner_to_timeline_media''))"
  proof
    assume b: "build_profile_data_main lib uname stamp desc toks (JObject ud) = Inr qd'"
    show "(length toks \<le> 0 \<longrightarrow>
         map_option Inr (map_of qd' ''followers'') = Some (snapshot_count lib ud ''edge_followed_by'')) \<and>
      (length toks \<le> 2 \<longrightarrow>
         map_option Inr (map_of qd' ''following'') = Some (snapshot_count lib ud ''edge_follow'')) \<and>
      (length toks \<le> 4 \<longrightarrow>
         map_option Inr (map_of qd' ''posts'') =
           Some (snapshot_count lib ud ''edge_owner_to_timeline_media''))"
      using build_main_fields(3)[OF b] build_main_fields(4)[OF b] build_main_fields(5)[OF b] short
      by metis
  qed
  show ?thesis
    using c[of e0] c[of e2] c[of e4] 1 2 3 4 5 6 short[of i edge] by blast
qed

theorem counts_from_meta_tokens_witness:
  "(\<exists>pd. build_profile_data sample_library ''alice'' ''2024-01-01T00:00:00'' (JObject [])
            [''10'', ''Followers,'', ''20'', ''Following,'', ''30'', ''Posts'']
            (JObject sample_user) = Inr pd \<and>
         map_of pd ''Followers'' = Some (JString ''10'') \<and>
         map_of pd ''Following'' = Some (JString ''20'') \<and>
         map_of pd ''Posts'' = Some (JString ''30'')) \<and>
   count_field sample_library [] 0 sample_user ''edge_followed_by'' = Inr (JString ''10'')"
proof -
  let ?t = "[''10'', ''Followers,'', ''20'', ''Following,'', ''30'', ''Posts'']"
  note n = sample_name_and_url(3) and u = sample_name_and_url(4)
  note t0 = counts_from_meta_tokens[where desc = "JObject []" and ud = sample_user
      and name = "JString ''Alice A''" and uname = "''alice''"
      and url = "JString ''https://www.instagram.com/alice/''"
      and lib = sample_library and stamp = "''2024-01-01T00:00:00''"
      and ?n1.0 = "''10''" and ?n2.0 = "''20''" and ?n3.0 = "''30''"
      and toks = "[]" and i = 0 and edge = "''edge_followed_by''"
      and cnt = "[(''count'', JInt 10)]" and c = "JInt 10"]
  from t0 n u obtain pd where
    pd: "build_profile_data sample_library ''alice'' ''2024-01-01T00:00:00'' (JObject []) ?t
           (JObject sample_user) = Inr pd"
    by blast
  from t0[where pd = pd] pd
  have f: "map_of pd ''Followers'' = Some (JString ''10'') \<and>
      map_of pd ''Following'' = Some (JString ''20'') \<and>
      map_of pd ''Posts'' = Some (JString ''30'')"
    by blast
  have l: "length ([] :: string list) \<le> 0" by simp
  have m: "map_of sample_user ''edge_followed_by'' = Some (JObject [(''count'', JInt 10)]) \<and>
      map_of [(''count'', JInt 10)] ''count'' = Some (JInt 10)"
    by (simp add: sample_user_def)
  have s: "py_str sample_library (JInt 10) = ''10''"
    by (simp add: sample_library_def decimal.simps digit_def)
  from t0 l m
  have "count_field sample_library [] 0 sample_user ''edge_followed_by'' =
      Inr (JString (py_str sample_library (JInt 10)))"
    by metis
  then have c: "count_field sample_library [] 0 sample_user ''edge_followed_by'' =
      Inr (JString ''10'')"
    by (simp only: s)
  show ?thesis using pd f c by blast
qed

subsection \<open>A post without a caption\<close>

text \<open>
  C6. The claim: a post's caption is the text of the first caption edge, or the empty
  string when the post has none, never a crash, and the view count is there for videos
  only. The view count is as claimed (\<^verbatim>\<open>None\<close> unless \<^verbatim>\<open>is_video\<close>); the caption is not. The
  caption expression guards a missing \<^verbatim>\<open>edges\<close> key with the default \<^verbatim>\<open>[{}]\<close>, but
  a present and empty \<^verbatim>\<open>edges\<close> list, which is what a post without a caption has, makes
  \<^verbatim>\<open>[0]\<close> raise IndexError. The exception ends the loop over the posts: in
  InstagramOSINT.py \<^verbatim>\<open>scrape_posts\<close> returns \<^verbatim>\<open>None\<close> for the whole profile, and in main.py
  the metadata of the post is not built. The sample profile has one such post.
\<close>

theorem empty_caption_edges_raise:
  "caption [(''id'', JString ''77''),
            (''display_url'', JString ''https://cdn.test/77.jpg''),
            (''edge_media_to_caption'', JObject [(''edges'', JArray [])])] = Inl IndexError \<and>
   post_record sample_library sample_post = Inl IndexError \<and>
   post_data_main sample_post = Inl IndexError \<and>
   scrape_posts sample_library 12
     (snd (parse_profile (build_profile_data sample_library) sample_library
            (sample_page\<lparr>ld_json := None\<rparr>) flaky_state)) = None"
proof -
  have c: "caption [(''id'', JString ''77''),
            (''display_url'', JString ''https://cdn.test/77.jpg''),
            (''edge_media_to_caption'', JObject [(''edges'', JArray [])])] = Inl IndexError"
    by (simp add: caption_def dict_get_def)
  have r: "post_record sample_library sample_post = Inl IndexError"
    by (simp add: post_record_def sample_post_def c)
  have m: "post_data_main sample_post = Inl IndexError"
    by (simp add: post_data_main_def sample_post_def c)
  let ?s = "snd (parse_profile (build_profile_data sample_library) sample_library
            (sample_page\<lparr>ld_json := None\<rparr>) flaky_state)"
  have g: "general_data (sample_page\<lparr>ld_json := None\<rparr>) =
      [\<lparr>content_attr = Some ''10 Followers, 20 Following, 30 Posts'',
        tag_string = None, tag_text = []\<rparr>]"
    and l: "ld_json (sample_page\<lparr>ld_json := None\<rparr>) = None"
    and d: "more_data (sample_page\<lparr>ld_json := None\<rparr>) = more_data sample_page"
    by (simp_all add: sample_page_def)
  have u: "username flaky_state = ''alice''" by (simp add: flaky_state_def)
  have p: "dict_get sample_user ''is_private'' (JBool False) = JBool False"
    by (simp add: sample_user_def dict_get_def)
  have st: "profile_meta ?s = Some snapshot \<and> profile_data ?s \<noteq> [] \<and>
      dict_get (profile_data ?s) ''Is Private'' (JBool True) = JBool False"
    unfolding parse_profile_def g l d sample_find
    by (simp add: sample_loads sample_script sample_tokens sample_user_node sample_counts
        sample_name_and_url u p p[unfolded dict_get_def] dict_get_def)
  have e: "timeline_edges 12 ?s = Inr [sample_post]"
    using st by (simp add: timeline_edges_def sample_user_node)
      (simp add: sample_user_def slice_to_def)
  have "scrape_posts sample_library 12 ?s = None"
    using st by (simp add: scrape_posts_def e r)
  then show ?thesis using c r m by blast
qed

section \<open>Properties of the output directory\<close>

subsection \<open>Decimal counters\<close>






subsection \<open>Splitting and walking paths\<close>









subsection \<open>What exists\<close>







lemma makedirs_fields:
  "username (makedirs p s) = username s"
  "cwd (makedirs p s) = cwd s"
  "files (makedirs p s) = files s"
  "dirs (makedirs p s) = dirs s @ parents p @ [p]"
  "profile_data (makedirs p s) = profile_data s"
  by (simp_all add: makedirs_def)





subsection \<open>The candidates\<close>














subsection \<open>The loop\<close>





subsection \<open>Allocation\<close>



section \<open>Properties of the downloads\<close>

lemma write_file_fields:
  "username (write_file p c s) = username s"
  "profile_data (write_file p c s) = profile_data s"
  "network (write_file p c s) = network s"
  "max_retries (write_file p c s) = max_retries s"
  "dirs (write_file p c s) = dirs s"
  "files (write_file p c s) = files s @ [(p, c)]"
  by (simp_all add: write_file_def)

lemma makedirs_more:
  "network (makedirs p s) = network s"
  "max_retries (makedirs p s) = max_retries s"
  "sent (makedirs p s) = sent s"
  by (simp_all add: makedirs_def)

lemma make_request_fields:
  "username (snd (make_request u s)) = username s"
  "profile_data (snd (make_request u s)) = profile_data s"
  "network (snd (make_request u s)) = network s"
  "max_retries (snd (make_request u s)) = max_retries s"
  "dirs (snd (make_request u s)) = dirs s"
  "files (snd (make_request u s)) = files s"
  by (simp_all add: make_request_def retries_fields)


lemma download_profile_pic_fields:
  "profile_data (download_profile_pic d s) = profile_data s"
  "username (download_profile_pic d s) = username s"
  "network (download_profile_pic d s) = network s"
  "max_retries (download_profile_pic d s) = max_retries s"
proof -
  let ?u = "dict_get (profile_data s) ''Profile Picture URL'' JNull"
  obtain r s' where m: "make_request ?u s = (r, s')" by (cases "make_request ?u s")
  have f: "profile_data s' = profile_data s" "username s' = username s"
    "network s' = network s" "max_retries s' = max_retries s"
    using make_request_fields[of ?u s] m by simp_all
  show "profile_data (download_profile_pic d s) = profile_data s"
    and "username (download_profile_pic d s) = username s"
    and "network (download_profile_pic d s) = network s"
    and "max_retries (download_profile_pic d s) = max_retries s"
    by (simp_all add: download_profile_pic_def Let_def m f write_file_fields split: option.splits)
qed

lemma download_profile_pic_files:
  "files (download_profile_pic d s) =
     (if truthy (dict_get (profile_data s) ''Profile Picture URL'' JNull)
      then (case fst (make_request (dict_get (profile_data s) ''Profile Picture URL'' JNull) s) of
              None \<Rightarrow> files s
            | Some body \<Rightarrow> files s @ [(path_join d (username s @ ''_profile_pic.jpg''), Body body)])
      else files s)"
proof -
  let ?u = "dict_get (profile_data s) ''Profile Picture URL'' JNull"
  obtain r s' where m: "make_request ?u s = (r, s')" by (cases "make_request ?u s")
  have f: "files s' = files s" "username s' = username s"
    using make_request_fields[of ?u s] m by simp_all
  show ?thesis
    by (simp add: download_profile_pic_def Let_def m f write_file_fields split: option.splits)
qed

lemma download_media_private:
  assumes "profile_data s \<noteq> []"
    and "truthy (dict_get (profile_data s) ''Is Private'' (JBool True))"
  shows "download_media lib out limit s =
         (True, download_profile_pic (dir_or_username out s) (makedirs (dir_or_username out s) s))"
  using assms
  by (simp add: download_media_def Let_def download_posts_def download_profile_pic_fields
      makedirs_fields)


lemma private_state_facts:
  "profile_data private_state \<noteq> []"
  "dict_get (profile_data private_state) ''Is Private'' (JBool True) = JBool True"
  "dict_get (profile_data private_state) ''Profile Picture URL'' JNull =
     JString ''https://cdn.test/alice.jpg''"
  "username private_state = ''alice''"
  "network private_state = network flaky_state"
  "sent private_state = 0"
  "max_retries private_state = 3"
  "files private_state = []"
  "dict_get (profile_data private_state_main) ''is_private'' (JBool True) = JBool True"
  by (simp_all add: private_state_def private_state_main_def sample_name_and_url sample_counts
      profile_name_def profile_url_def private_user_def dict_get_def flaky_state_def)

lemma private_fetch:
  assumes "network s = network flaky_state" and "sent s = 0" and "max_retries s = 3"
  shows "fst (make_request url s) = Some ''body''"
proof -
  have a: "\<forall>i<2. snd (network s (sent s + i)) = None"
    and b: "snd (network s (sent s + 2)) = Some ''body''"
    using assms by (simp_all add: flaky_state_def)
  have c: "int 0 + int 2 \<le> (3::int)" by simp
  from retries_succeed[OF a b c] show ?thesis by (simp add: make_request_def assms(3))
qed

subsection \<open>Private profiles\<close>

text \<open>
  C7, as stated, fails for \<^verbatim>\<open>download_media\<close> of InstagramOSINT.py: on a private profile
  with a picture URL, on a network that answers the third request, it writes the profile
  picture.
\<close>

theorem private_download_counterexample:
  "truthy (dict_get (profile_data private_state) ''Is Private'' (JBool True)) \<and>
   files private_state = [] \<and>
   files (snd (download_media sample_library None 12 private_state)) =
     [(''alice/alice_profile_pic.jpg'', Body ''body'')]"
proof -
  let ?s1 = "makedirs ''alice'' private_state"
  have d: "dir_or_username None private_state = ''alice''"
    by (simp add: dir_or_username_def private_state_facts)
  have r: "fst (make_request (JString ''https://cdn.test/alice.jpg'') ?s1) = Some ''body''"
    by (rule private_fetch) (simp_all add: makedirs_more private_state_facts)
  have "files (download_profile_pic ''alice'' ?s1) =
      [(path_join ''alice'' (''alice'' @ ''_profile_pic.jpg''), Body ''body'')]"
    by (simp add: download_profile_pic_files makedirs_fields private_state_facts r
        split: option.splits)
  then have "files (download_profile_pic ''alice'' ?s1) =
      [(''alice/alice_profile_pic.jpg'', Body ''body'')]"
    by (simp add: path_join_def)
  then show ?thesis
    using download_media_private[of private_state sample_library None 12]
    by (simp add: private_state_facts d)
qed

text \<open>
  C7, amended. In main.py \<^verbatim>\<open>_download_content\<close> skips entirely when the profile is private:
  no request is made and nothing is written. In InstagramOSINT.py \<^verbatim>\<open>download_media\<close> on a
  private profile still creates the output directory and downloads the profile picture
  (a file is written when the record has a picture URL and the fetch succeeds); only the
  posts are skipped: no posts directory, no metadata file and no post media.
\<close>

theorem private_profile_downloads:
  "(truthy (dict_get (profile_data s) ''is_private'' (JBool True)) \<longrightarrow>
      download_content lib s = s) \<and>
   (profile_data s \<noteq> [] \<and> truthy (dict_get (profile_data s) ''Is Private'' (JBool True)) \<longrightarrow>
      download_media lib out limit s =
        (True, download_profile_pic (dir_or_username out s) (makedirs (dir_or_username out s) s)) \<and>
      dirs (snd (download_media lib out limit s)) =
        dirs s @ parents (dir_or_username out s) @ [dir_or_username out s] \<and>
      files (snd (download_media lib out limit s)) =
        (if truthy (dict_get (profile_data s) ''Profile Picture URL'' JNull)
         then (case fst (make_request (dict_get (profile_data s) ''Profile Picture URL'' JNull)
                           (makedirs (dir_or_username out s) s)) of
                 None \<Rightarrow> files s
               | Some body \<Rightarrow>
                   files s @ [(path_join (dir_or_username out s) (username s @ ''_profile_pic.jpg''),
                               Body body)])
         else files s))"
proof (intro conjI impI)
  assume "truthy (dict_get (profile_data s) ''is_private'' (JBool True))"
  then show "download_content lib s = s" by (simp add: download_content_def)
next
  assume a: "profile_data s \<noteq> [] \<and> truthy (dict_get (profile_data s) ''Is Private'' (JBool True))"
  let ?d = "dir_or_username out s"
  show e: "download_media lib out limit s = (True, download_profile_pic ?d (makedirs ?d s))"
    using a download_media_private by blast
  show "files (snd (download_media lib out limit s)) =
        (if truthy (dict_get (profile_data s) ''Profile Picture URL'' JNull)
         then (case fst (make_request (dict_get (profile_data s) ''Profile Picture URL'' JNull)
                           (makedirs ?d s)) of
                 None \<Rightarrow> files s
               | Some body \<Rightarrow>
                   files s @ [(path_join ?d (username s @ ''_profile_pic.jpg''), Body body)])
         else files s)"
    by (simp add: e download_profile_pic_files makedirs_fields split: option.splits)
  have "dirs (download_profile_pic ?d (makedirs ?d s)) = dirs (makedirs ?d s)"
  proof -
    let ?u = "dict_get (profile_data (makedirs ?d s)) ''Profile Picture URL'' JNull"
    obtain r s' where m: "make_request ?u (makedirs ?d s) = (r, s')"
      by (cases "make_request ?u (makedirs ?d s)")
    have "dirs s' = dirs (makedirs ?d s)"
      using make_request_fields(5)[of ?u "makedirs ?d s"] m by simp
    then show ?thesis
      by (simp add: download_profile_pic_def Let_def m write_file_fields split: option.splits)
  qed
  then show "dirs (snd (download_media lib out limit s)) = dirs s @ parents ?d @ [?d]"
    by (simp add: e makedirs_fields)
qed

theorem private_profile_downloads_witness:
  "truthy (dict_get (profile_data private_state_main) ''is_private'' (JBool True)) \<and>
   download_content sample_library private_state_main = private_state_main \<and>
   profile_data private_state \<noteq> [] \<and>
   truthy (dict_get (profile_data private_state) ''Is Private'' (JBool True)) \<and>
   fst (download_media sample_library None 12 private_state) = True \<and>
   dirs (snd (download_media sample_library None 12 private_state)) = [''alice'']"
proof -
  have a: "truthy (dict_get (profile_data private_state_main) ''is_private'' (JBool True))"
    and b: "profile_data private_state \<noteq> []"
    and c: "truthy (dict_get (profile_data private_state) ''Is Private'' (JBool True))"
    by (simp_all add: private_state_facts)
  have d: "dir_or_username None private_state = ''alice''"
    by (simp add: dir_or_username_def private_state_facts)
  have e: "dirs private_state = []" by (simp add: private_state_def flaky_state_def
        sample_name_and_url sample_counts profile_name_def profile_url_def)
  have p: "parents ''alice'' = []" by (simp add: parents_def upt_rec)
  note m = private_profile_downloads[of private_state_main sample_library]
  note i = private_profile_downloads[of private_state sample_library None 12]
  have 1: "download_content sample_library private_state_main = private_state_main"
    using m a by blast
  have 2: "fst (download_media sample_library None 12 private_state) = True"
    using i b c by simp
  have "dirs (snd (download_media sample_library None 12 private_state)) =
      dirs private_state @ parents (dir_or_username None private_state)
        @ [dir_or_username None private_state]"
    using i b c by blast
  then have 3: "dirs (snd (download_media sample_library None 12 private_state)) = [''alice'']"
    by (simp add: d e p)
  show ?thesis using a b c 1 2 3 by blast
qed

subsection \<open>The result of \<open>download_media\<close>\<close>





end
